theory Spec2Isabelle
  imports Complex_Main "HOL-Library.AList"
begin

section \<open>Python values used by the script\<close>

text \<open>
  The program is one Python script, \<^verbatim>\<open>create_thesis_docx.py\<close>.  It builds a document
  through the python-docx library and saves it.  Python strings are modelled as
  \<^typ>\<open>string\<close>, holding the UTF-8 bytes of the text: the only string operations of the
  script are concatenation, \<^verbatim>\<open>split('\n')\<close>, the emptiness test and the comparison
  \<^verbatim>\<open><=\<close>, and on all of them the byte sequence behaves as the sequence of code points
  does.
\<close>

text \<open>The exceptions that the modelled calls can raise.\<close>

datatype error = ValueError | KeyError | IndexError | NameError | AttributeError | IOError

text \<open>\<^verbatim>\<open>a <= b\<close> on \<^verbatim>\<open>str\<close>: lexicographic, by code.\<close>

fun str_le :: "string \<Rightarrow> string \<Rightarrow> bool" where
  "str_le [] ys = True"
| "str_le (x # xs) [] = False"
| "str_le (x # xs) (y # ys) =
     (if x = y then str_le xs ys else (of_char x :: nat) < of_char y)"

text \<open>\<^verbatim>\<open>s.split(sep)\<close> for a separator of one character.\<close>

fun str_split :: "char \<Rightarrow> string \<Rightarrow> string list" where
  "str_split sep [] = [[]]"
| "str_split sep (c # cs) =
     (if c = sep then [] # str_split sep cs
      else (case str_split sep cs of
              [] \<Rightarrow> [[c]]
            | w # ws \<Rightarrow> (c # w) # ws))"

text \<open>\<^verbatim>\<open>str(n)\<close> for an integer, as the f-strings of the script format it.\<close>

definition digit :: "nat \<Rightarrow> char" where
  "digit d = ''0123456789'' ! d"

fun str_nat :: "nat \<Rightarrow> string" where
  "str_nat n = (if n < 10 then [digit n] else str_nat (n div 10) @ [digit (n mod 10)])"

declare str_nat.simps [simp del]

definition str_int :: "int \<Rightarrow> string" where
  "str_int i = (if i < 0 then CHR ''-'' # str_nat (nat (- i)) else str_nat (nat i))"

text \<open>\<^verbatim>\<open>enumerate(xs, start)\<close> is \<^const>\<open>List.enumerate\<close>.  A \<^verbatim>\<open>for\<close> loop over a list
  that is known when the script is written runs its body once per element, in order.\<close>

definition for_each :: "'a list \<Rightarrow> ('a \<Rightarrow> 'b list) \<Rightarrow> 'b list" where
  "for_each xs body = concat (map body xs)"

text \<open>Lengths are English Metric Units, as in \<^verbatim>\<open>docx.shared\<close>: \<^verbatim>\<open>Pt(p)\<close> is
  \<^verbatim>\<open>int(p * 12700)\<close> and \<^verbatim>\<open>Inches(i)\<close> is \<^verbatim>\<open>int(i * 914400)\<close>.  The script passes
  integers to \<^verbatim>\<open>Pt\<close> and the values 1 and 1.25 to \<^verbatim>\<open>Inches\<close>.\<close>

definition Pt :: "int \<Rightarrow> int" where
  "Pt points = points * 12700"

definition Inches :: "rat \<Rightarrow> int" where
  "Inches inches = (let emu = inches * 914400 in if 0 \<le> emu then \<lfloor>emu\<rfloor> else \<lceil>emu\<rceil>)"

section \<open>The document tree of python-docx\<close>

datatype WD_ALIGN_PARAGRAPH = LEFT | CENTER | RIGHT | JUSTIFY

datatype WD_STYLE_TYPE = CHARACTER | PARAGRAPH | TABLE

record docx_run =
  run_text :: string
  bold :: "bool option"
  italic :: "bool option"
  font_size :: "int option"
  font_color :: "(nat \<times> nat \<times> nat) option"
  page_break :: bool

record docx_paragraph =
  style :: "string option"
  alignment :: "WD_ALIGN_PARAGRAPH option"
  runs :: "docx_run list"
  space_before :: "int option"
  space_after :: "int option"
  line_spacing :: "rat option"

record docx_table =
  table_style :: "string option"
  table_rows :: "string list list"

datatype block = Paragraph docx_paragraph | Table docx_table

record docx_section =
  top_margin :: int
  bottom_margin :: int
  left_margin :: int
  right_margin :: int

record document =
  blocks :: "block list"
  sections :: "docx_section list"
  styles :: "(string \<times> WD_STYLE_TYPE) list"

text \<open>
  A paragraph, a run and a table are objects of the library that the script holds in
  variables and changes in place.  In the model a paragraph or a table is referred to by
  its position in \<^const>\<open>blocks\<close>, a run by the position of its paragraph and its own
  position in \<^const>\<open>runs\<close>; a change to an object is a change at that position.
\<close>

definition new_paragraph :: docx_paragraph where
  "new_paragraph =
     \<lparr>style = None, alignment = None, runs = [], space_before = None,
      space_after = None, line_spacing = None\<rparr>"

definition new_run :: "string \<Rightarrow> docx_run" where
  "new_run text =
     \<lparr>run_text = text, bold = None, italic = None, font_size = None,
      font_color = None, page_break = False\<rparr>"

text \<open>\<^verbatim>\<open>paragraph.add_run(text)\<close>: the new run is the last one of the paragraph.\<close>

definition add_run :: "docx_paragraph \<Rightarrow> string \<Rightarrow> docx_paragraph" where
  "add_run paragraph text = paragraph\<lparr>runs := runs paragraph @ [new_run text]\<rparr>"

text \<open>Looking a style up by name raises \<^verbatim>\<open>KeyError\<close> when the document has no style
  of that name and \<^verbatim>\<open>ValueError\<close> when the style is of another type.\<close>

definition get_style_id :: "document \<Rightarrow> string \<Rightarrow> WD_STYLE_TYPE \<Rightarrow> error + string" where
  "get_style_id doc name style_type =
     (case map_of (styles doc) name of
        None \<Rightarrow> Inl KeyError
      | Some t \<Rightarrow> if t = style_type then Inr name else Inl ValueError)"

text \<open>\<^verbatim>\<open>doc.add_paragraph(text='', style=None)\<close> appends a paragraph at the end of the body
  and returns it; the text, when not empty, becomes its one run.\<close>

definition add_paragraph :: "document \<Rightarrow> string \<Rightarrow> string option \<Rightarrow> error + nat \<times> document" where
  "add_paragraph doc text style_name =
     (let paragraph = (if text \<noteq> [] then add_run new_paragraph text else new_paragraph)
      in case style_name of
           None \<Rightarrow>
             Inr (length (blocks doc), doc\<lparr>blocks := blocks doc @ [Paragraph paragraph]\<rparr>)
         | Some name \<Rightarrow>
             (case get_style_id doc name PARAGRAPH of
                Inl e \<Rightarrow> Inl e
              | Inr style_id \<Rightarrow>
                  Inr (length (blocks doc),
                       doc\<lparr>blocks := blocks doc @ [Paragraph (paragraph\<lparr>style := Some style_id\<rparr>)]\<rparr>)))"

text \<open>\<^verbatim>\<open>doc.add_heading(text, level)\<close> accepts the levels 0 to 9; level 0 is the title, a
  level \<open>n\<close> from 1 to 9 is a paragraph of style \<^verbatim>\<open>Heading n\<close>.\<close>

definition heading_style :: "int \<Rightarrow> string" where
  "heading_style level = (if level = 0 then ''Title'' else ''Heading '' @ str_int level)"

definition add_heading :: "document \<Rightarrow> string \<Rightarrow> int \<Rightarrow> error + nat \<times> document" where
  "add_heading doc text level =
     (if \<not> (0 \<le> level \<and> level \<le> 9) then Inl ValueError
      else add_paragraph doc text (Some (heading_style level)))"

text \<open>\<^verbatim>\<open>doc.add_page_break()\<close> appends a paragraph whose one run is a page break.\<close>

definition add_page_break :: "document \<Rightarrow> error + nat \<times> document" where
  "add_page_break doc =
     Inr (length (blocks doc),
          doc\<lparr>blocks := blocks doc @
                 [Paragraph (new_paragraph\<lparr>runs := [(new_run [])\<lparr>page_break := True\<rparr>]\<rparr>)]\<rparr>)"

text \<open>\<^verbatim>\<open>doc.add_table(rows, cols)\<close> appends a grid of \<open>rows \<times> cols\<close> cells, each with the
  empty text.\<close>

definition add_table :: "document \<Rightarrow> nat \<Rightarrow> nat \<Rightarrow> error + nat \<times> document" where
  "add_table doc rows cols =
     Inr (length (blocks doc),
          doc\<lparr>blocks := blocks doc @
                 [Table \<lparr>table_style = None, table_rows = replicate rows (replicate cols [])\<rparr>]\<rparr>)"

text \<open>Changing the object at a position.  A position that holds no object of the kind
  asked for is reported as \<^verbatim>\<open>AttributeError\<close>; the positions that the calls above return
  never are in that case.\<close>

definition update_paragraph ::
  "document \<Rightarrow> nat \<Rightarrow> (docx_paragraph \<Rightarrow> error + docx_paragraph) \<Rightarrow> error + document" where
  "update_paragraph doc h f =
     (if h < length (blocks doc) then
        (case blocks doc ! h of
           Paragraph p \<Rightarrow>
             (case f p of
                Inl e \<Rightarrow> Inl e
              | Inr p' \<Rightarrow> Inr (doc\<lparr>blocks := (blocks doc)[h := Paragraph p']\<rparr>))
         | Table t \<Rightarrow> Inl AttributeError)
      else Inl AttributeError)"

definition update_table ::
  "document \<Rightarrow> nat \<Rightarrow> (docx_table \<Rightarrow> error + docx_table) \<Rightarrow> error + document" where
  "update_table doc h f =
     (if h < length (blocks doc) then
        (case blocks doc ! h of
           Table t \<Rightarrow>
             (case f t of
                Inl e \<Rightarrow> Inl e
              | Inr t' \<Rightarrow> Inr (doc\<lparr>blocks := (blocks doc)[h := Table t']\<rparr>))
         | Paragraph p \<Rightarrow> Inl AttributeError)
      else Inl AttributeError)"

definition update_run ::
  "docx_paragraph \<Rightarrow> nat \<Rightarrow> (docx_run \<Rightarrow> docx_run) \<Rightarrow> error + docx_paragraph" where
  "update_run paragraph i f =
     (if i < length (runs paragraph)
      then Inr (paragraph\<lparr>runs := (runs paragraph)[i := f (runs paragraph ! i)]\<rparr>)
      else Inl AttributeError)"

text \<open>\<^verbatim>\<open>paragraph.style = name\<close> and \<^verbatim>\<open>table.style = name\<close>.\<close>

definition set_paragraph_style :: "document \<Rightarrow> string \<Rightarrow> docx_paragraph \<Rightarrow> error + docx_paragraph" where
  "set_paragraph_style doc name paragraph =
     (case get_style_id doc name PARAGRAPH of
        Inl e \<Rightarrow> Inl e
      | Inr style_id \<Rightarrow> Inr (paragraph\<lparr>style := Some style_id\<rparr>))"

definition set_table_style :: "document \<Rightarrow> string \<Rightarrow> docx_table \<Rightarrow> error + docx_table" where
  "set_table_style doc name t =
     (case get_style_id doc name TABLE of
        Inl e \<Rightarrow> Inl e
      | Inr style_id \<Rightarrow> Inr (t\<lparr>table_style := Some style_id\<rparr>))"

text \<open>\<^verbatim>\<open>table.rows[i].cells[j].text = text\<close>, for indices that are not negative: an index
  beyond the grid raises \<^verbatim>\<open>IndexError\<close>.  The script takes the cells of a row first
  (\<^verbatim>\<open>cells = table.rows[i].cells\<close>) and assigns to \<^verbatim>\<open>cells[j].text\<close> afterwards.\<close>

definition row_cells :: "docx_table \<Rightarrow> nat \<Rightarrow> error + string list" where
  "row_cells t i = (if i < length (table_rows t) then Inr (table_rows t ! i) else Inl IndexError)"

definition set_cell_text :: "nat \<Rightarrow> nat \<Rightarrow> string \<Rightarrow> docx_table \<Rightarrow> error + docx_table" where
  "set_cell_text i j text t =
     (case row_cells t i of
        Inl e \<Rightarrow> Inl e
      | Inr row \<Rightarrow>
          if j < length row
          then Inr (t\<lparr>table_rows := (table_rows t)[i := row[j := text]]\<rparr>)
          else Inl IndexError)"

text \<open>\<^verbatim>\<open>Document()\<close> opens the default template of the library: an empty body and one
  section.  Of the styles of the template the model lists those that the script names;
  the template defines more, none of which the script refers to.\<close>

definition default_styles :: "(string \<times> WD_STYLE_TYPE) list" where
  "default_styles =
     [(''Normal'', PARAGRAPH), (''Title'', PARAGRAPH),
      (''Heading 1'', PARAGRAPH), (''Heading 2'', PARAGRAPH), (''Heading 3'', PARAGRAPH),
      (''Heading 4'', PARAGRAPH), (''Heading 5'', PARAGRAPH), (''Heading 6'', PARAGRAPH),
      (''Heading 7'', PARAGRAPH), (''Heading 8'', PARAGRAPH), (''Heading 9'', PARAGRAPH),
      (''List Bullet'', PARAGRAPH), (''List Number'', PARAGRAPH), (''No Spacing'', PARAGRAPH),
      (''Light Grid Accent 1'', TABLE)]"

definition default_section :: docx_section where
  "default_section =
     \<lparr>top_margin = Inches 1, bottom_margin = Inches 1,
      left_margin = Inches (5 / 4), right_margin = Inches (5 / 4)\<rparr>"

definition Document :: document where
  "Document = \<lparr>blocks = [], sections = [default_section], styles = default_styles\<rparr>"

section \<open>The functions of the script\<close>

text \<open>
  \<^verbatim>\<open>
  def set_paragraph_spacing(paragraph, space_before=0, space_after=12):
      p = paragraph.paragraph_format
      p.space_before = Pt(space_before)
      p.space_after = Pt(space_after)
      p.line_spacing = 1.5
  \<close>
  The function changes the paragraph it is given; the model returns the changed
  paragraph.  A caller that leaves a default out passes it explicitly here.
\<close>

definition set_paragraph_spacing :: "docx_paragraph \<Rightarrow> int \<Rightarrow> int \<Rightarrow> docx_paragraph" where
  "set_paragraph_spacing paragraph space_before' space_after' =
     paragraph\<lparr>space_before := Some (Pt space_before'),
               space_after := Some (Pt space_after'),
               line_spacing := Some (3 / 2)\<rparr>"




section \<open>The statements of the script\<close>

text \<open>
  Below its three functions the script is a sequence of statements at module level,
  with \<^verbatim>\<open>for\<close> loops over lists that are written out in the script itself.  Each statement
  is a call of the library on the one document \<^verbatim>\<open>doc\<close>, or an assignment to an attribute
  of an object that a variable holds.  The state of a run is the document, the module's
  variables that hold objects of the library, the files written and the lines printed.
  The environment of the run (command line, environment variables, clock, and which
  paths can be written) is part of the state; no statement but \<^verbatim>\<open>doc.save\<close> consults it.
\<close>

datatype pyobj = ParagraphObj nat | RunObj nat nat | TableObj nat | CellsObj nat nat

record environment =
  argv :: "string list"
  environ :: "(string \<times> string) list"
  clock :: nat
  can_write :: "string \<Rightarrow> bool"

record py_state =
  doc :: document
  globals :: "(string \<times> pyobj) list"
  files :: "(string \<times> document) list"
  stdout :: "string list"
  env :: environment

datatype section_assign =
    Top_margin int
  | Bottom_margin int
  | Left_margin int
  | Right_margin int

text \<open>The statements, with the Python they stand for; \<open>v\<close>, \<open>w\<close> are variable names.
  \<^item> \<open>Add_paragraph (Some v) text style\<close>: \<^verbatim>\<open>v = doc.add_paragraph(text, style=style)\<close>;
    with \<open>None\<close> the result is not kept.
  \<^item> \<open>Add_heading text level\<close>: \<^verbatim>\<open>doc.add_heading(text, level=level)\<close>.
  \<^item> \<open>Add_page_break\<close>: \<^verbatim>\<open>doc.add_page_break()\<close>.
  \<^item> \<open>Add_table v rows cols\<close>: \<^verbatim>\<open>v = doc.add_table(rows=rows, cols=cols)\<close>.
  \<^item> \<open>Add_run (Some w) v text\<close>: \<^verbatim>\<open>w = v.add_run(text)\<close>.
  \<^item> \<open>Set_alignment v a\<close>: \<^verbatim>\<open>v.alignment = a\<close>.
  \<^item> \<open>Set_style v name\<close>: \<^verbatim>\<open>v.style = name\<close>, for a paragraph or a table.
  \<^item> \<open>Set_bold w b\<close>: \<^verbatim>\<open>w.bold = b\<close>, which \<^verbatim>\<open>w.font.bold = b\<close> is too.
  \<^item> \<open>Set_font_size w n\<close>: \<^verbatim>\<open>w.font.size = n\<close>.
  \<^item> \<open>Set_font_color w c\<close>: \<^verbatim>\<open>w.font.color.rgb = RGBColor(r, g, b)\<close>.
  \<^item> \<open>Get_row_cells w v i\<close>: \<^verbatim>\<open>w = v.rows[i].cells\<close>.
  \<^item> \<open>Set_cell_text w j text\<close>: \<^verbatim>\<open>w[j].text = text\<close>.
  \<^item> \<open>For_sections assigns\<close>: \<^verbatim>\<open>for section in doc.sections:\<close> with the assignments
    to the margins of \<^verbatim>\<open>section\<close> as its body.
  \<^item> \<open>Set_paragraph_spacing v sb sa\<close>: the call
    \<^verbatim>\<open>set_paragraph_spacing(v, space_before=sb, space_after=sa)\<close>.
  \<^item> \<open>Save path\<close>: \<^verbatim>\<open>doc.save(path)\<close>.
  \<^item> \<open>Print line\<close>: \<^verbatim>\<open>print(line)\<close>.
  \<^item> \<open>Raise e\<close>: a statement whose evaluation raises \<open>e\<close>.
\<close>

datatype stmt =
    Add_paragraph "string option" string "string option"
  | Add_heading string int
  | Add_page_break
  | Add_table string nat nat
  | Add_run "string option" string string
  | Set_alignment string WD_ALIGN_PARAGRAPH
  | Set_style string string
  | Set_bold string bool
  | Set_font_size string int
  | Set_font_color string "nat \<times> nat \<times> nat"
  | Get_row_cells string string nat
  | Set_cell_text string nat string
  | For_sections "section_assign list"
  | Set_paragraph_spacing string int int
  | Save string
  | Print string
  | Raise error

text \<open>\<^verbatim>\<open>xs[i]\<close> inside a statement, for an index that is not negative: the statement
  raises \<^verbatim>\<open>IndexError\<close> when the list has no such element.\<close>

definition subscript :: "'a list \<Rightarrow> nat \<Rightarrow> ('a \<Rightarrow> stmt) \<Rightarrow> stmt" where
  "subscript xs i statement = (if i < length xs then statement (xs ! i) else Raise IndexError)"

definition lookup :: "py_state \<Rightarrow> string \<Rightarrow> error + pyobj" where
  "lookup s v = (case map_of (globals s) v of None \<Rightarrow> Inl NameError | Some obj \<Rightarrow> Inr obj)"

definition assign :: "string option \<Rightarrow> pyobj \<Rightarrow> py_state \<Rightarrow> py_state" where
  "assign target obj s =
     (case target of
        None \<Rightarrow> s
      | Some v \<Rightarrow> s\<lparr>globals := AList.update v obj (globals s)\<rparr>)"

definition returning ::
  "string option \<Rightarrow> (nat \<Rightarrow> pyobj) \<Rightarrow> py_state \<Rightarrow> error + nat \<times> document \<Rightarrow> error + py_state" where
  "returning target obj s result =
     (case result of
        Inl e \<Rightarrow> Inl e
      | Inr (h, d) \<Rightarrow> Inr (assign target (obj h) (s\<lparr>doc := d\<rparr>)))"

definition changing :: "py_state \<Rightarrow> error + document \<Rightarrow> error + py_state" where
  "changing s result = (case result of Inl e \<Rightarrow> Inl e | Inr d \<Rightarrow> Inr (s\<lparr>doc := d\<rparr>))"

definition paragraph_at :: "document \<Rightarrow> nat \<Rightarrow> error + docx_paragraph" where
  "paragraph_at d h =
     (if h < length (blocks d)
      then (case blocks d ! h of Paragraph p \<Rightarrow> Inr p | Table t \<Rightarrow> Inl AttributeError)
      else Inl AttributeError)"

definition table_at :: "document \<Rightarrow> nat \<Rightarrow> error + docx_table" where
  "table_at d h =
     (if h < length (blocks d)
      then (case blocks d ! h of Table t \<Rightarrow> Inr t | Paragraph p \<Rightarrow> Inl AttributeError)
      else Inl AttributeError)"

fun section_assignment :: "section_assign \<Rightarrow> docx_section \<Rightarrow> docx_section" where
  "section_assignment (Top_margin x) sec = sec\<lparr>top_margin := x\<rparr>"
| "section_assignment (Bottom_margin x) sec = sec\<lparr>bottom_margin := x\<rparr>"
| "section_assignment (Left_margin x) sec = sec\<lparr>left_margin := x\<rparr>"
| "section_assignment (Right_margin x) sec = sec\<lparr>right_margin := x\<rparr>"

text \<open>Modelled from the spec: \<^verbatim>\<open>doc.save(path)\<close> is the Serializer of section 4.4, which
  is code of the library.  It writes the document to the path, creating or overwriting
  the file, and fails with an I/O error when the path cannot be written.  The model
  records the document saved under the path, not the bytes of the file.\<close>

definition save :: "py_state \<Rightarrow> string \<Rightarrow> error + py_state" where
  "save s path =
     (if can_write (env s) path
      then Inr (s\<lparr>files := AList.update path (doc s) (files s)\<rparr>)
      else Inl IOError)"

fun exec1 :: "stmt \<Rightarrow> py_state \<Rightarrow> error + py_state" where
  "exec1 (Add_paragraph target text style_name) s =
     returning target ParagraphObj s (add_paragraph (doc s) text style_name)"
| "exec1 (Add_heading text level) s =
     returning None ParagraphObj s (add_heading (doc s) text level)"
| "exec1 Add_page_break s =
     returning None ParagraphObj s (add_page_break (doc s))"
| "exec1 (Add_table target rows cols) s =
     returning (Some target) TableObj s (add_table (doc s) rows cols)"
| "exec1 (Add_run target v text) s =
     (case lookup s v of
        Inl e \<Rightarrow> Inl e
      | Inr (ParagraphObj h) \<Rightarrow>
          (case paragraph_at (doc s) h of
             Inl e \<Rightarrow> Inl e
           | Inr p \<Rightarrow>
               returning target (RunObj h) s
                 (case update_paragraph (doc s) h (\<lambda>p. Inr (add_run p text)) of
                    Inl e \<Rightarrow> Inl e
                  | Inr d \<Rightarrow> Inr (length (runs p), d)))
      | Inr _ \<Rightarrow> Inl AttributeError)"
| "exec1 (Set_alignment v a) s =
     (case lookup s v of
        Inl e \<Rightarrow> Inl e
      | Inr (ParagraphObj h) \<Rightarrow>
          changing s (update_paragraph (doc s) h (\<lambda>p. Inr (p\<lparr>alignment := Some a\<rparr>)))
      | Inr _ \<Rightarrow> Inl AttributeError)"
| "exec1 (Set_style v name) s =
     (case lookup s v of
        Inl e \<Rightarrow> Inl e
      | Inr (ParagraphObj h) \<Rightarrow>
          changing s (update_paragraph (doc s) h (set_paragraph_style (doc s) name))
      | Inr (TableObj h) \<Rightarrow>
          changing s (update_table (doc s) h (set_table_style (doc s) name))
      | Inr _ \<Rightarrow> Inl AttributeError)"
| "exec1 (Set_bold v b) s =
     (case lookup s v of
        Inl e \<Rightarrow> Inl e
      | Inr (RunObj h i) \<Rightarrow>
          changing s (update_paragraph (doc s) h (\<lambda>p. update_run p i (\<lambda>r. r\<lparr>bold := Some b\<rparr>)))
      | Inr _ \<Rightarrow> Inl AttributeError)"
| "exec1 (Set_font_size v n) s =
     (case lookup s v of
        Inl e \<Rightarrow> Inl e
      | Inr (RunObj h i) \<Rightarrow>
          changing s
            (update_paragraph (doc s) h (\<lambda>p. update_run p i (\<lambda>r. r\<lparr>font_size := Some n\<rparr>)))
      | Inr _ \<Rightarrow> Inl AttributeError)"
| "exec1 (Set_font_color v c) s =
     (case lookup s v of
        Inl e \<Rightarrow> Inl e
      | Inr (RunObj h i) \<Rightarrow>
          changing s
            (update_paragraph (doc s) h (\<lambda>p. update_run p i (\<lambda>r. r\<lparr>font_color := Some c\<rparr>)))
      | Inr _ \<Rightarrow> Inl AttributeError)"
| "exec1 (Get_row_cells target v i) s =
     (case lookup s v of
        Inl e \<Rightarrow> Inl e
      | Inr (TableObj h) \<Rightarrow>
          (case table_at (doc s) h of
             Inl e \<Rightarrow> Inl e
           | Inr t \<Rightarrow>
               (case row_cells t i of
                  Inl e \<Rightarrow> Inl e
                | Inr row \<Rightarrow> Inr (assign (Some target) (CellsObj h i) s)))
      | Inr _ \<Rightarrow> Inl AttributeError)"
| "exec1 (Set_cell_text v j text) s =
     (case lookup s v of
        Inl e \<Rightarrow> Inl e
      | Inr (CellsObj h i) \<Rightarrow> changing s (update_table (doc s) h (set_cell_text i j text))
      | Inr _ \<Rightarrow> Inl AttributeError)"
| "exec1 (For_sections assigns) s =
     Inr (s\<lparr>doc := (doc s)\<lparr>sections :=
            map (\<lambda>sec. fold section_assignment assigns sec) (sections (doc s))\<rparr>\<rparr>)"
| "exec1 (Set_paragraph_spacing v sb sa) s =
     (case lookup s v of
        Inl e \<Rightarrow> Inl e
      | Inr (ParagraphObj h) \<Rightarrow>
          changing s
            (update_paragraph (doc s) h (\<lambda>p. Inr (set_paragraph_spacing p sb sa)))
      | Inr _ \<Rightarrow> Inl AttributeError)"
| "exec1 (Save path) s = save s path"
| "exec1 (Print line) s = Inr (s\<lparr>stdout := stdout s @ [line]\<rparr>)"
| "exec1 (Raise e) s = Inl e"

text \<open>Statements run in order.  The script catches no exception, so the first one that
  is raised ends the run: the outcome is then the exception together with the state in
  which the failing statement began, its files and printed lines being those that the
  run leaves behind.\<close>

fun exec :: "stmt list \<Rightarrow> py_state \<Rightarrow> error \<times> py_state + py_state" where
  "exec [] s = Inr s"
| "exec (st # rest) s =
     (case exec1 st s of Inl e \<Rightarrow> Inl (e, s) | Inr s' \<Rightarrow> exec rest s')"

text \<open>\<^verbatim>\<open>doc = Document()\<close>, the first statement.\<close>

definition startup :: "environment \<Rightarrow> py_state" where
  "startup e = \<lparr>doc = Document, globals = [], files = [], stdout = [], env = e\<rparr>"

section \<open>The script\<close>

text \<open>
  The statements of the script in the order of the source, cut into pieces at the
  banner comments and at the headings of levels 1 to 3 that the script adds outside its
  loops, and the lists and texts that the script binds to variables, each before the
  piece that defines it.  The characters of the texts that are not ASCII are named here,
  as their UTF-8 bytes.
\<close>

definition bullet :: string where
  "bullet = [CHR 0xE2, CHR 0x80, CHR 0xA2]"

definition check_mark :: string where
  "check_mark = [CHR 0xE2, CHR 0x9C, CHR 0x93]"

definition arrow :: string where
  "arrow = [CHR 0xE2, CHR 0x86, CHR 0x92]"

definition box_tee :: string where
  "box_tee = [CHR 0xE2, CHR 0x94, CHR 0x9C]"

definition box_bar :: string where
  "box_bar = [CHR 0xE2, CHR 0x94, CHR 0x82]"

definition box_corner :: string where
  "box_corner = [CHR 0xE2, CHR 0x94, CHR 0x94]"

definition box_dash :: string where
  "box_dash = [CHR 0xE2, CHR 0x94, CHR 0x80]"

definition page_setup :: "stmt list" where
  "page_setup =
     [For_sections
      [Top_margin (Inches 1),
       Bottom_margin (Inches 1),
       Left_margin (Inches (5 / 4)),
       Right_margin (Inches (5 / 4))]]"

definition info_text :: string where
  "info_text =
     ''Author: Developer\<newline>Date: January 26, 2026\<newline>Institution: [University Name]\<newline>Program: Computer Science / Software Engineering / Information Systems''"

definition title_page :: "stmt list" where
  "title_page =
     [Add_paragraph (Some ''title'') '''' None,
      Set_alignment ''title'' CENTER,
      Add_run (Some ''title_run'') ''title'' ''Design and Implementation of a Microservice-Based System\<newline>for GitHub Data Processing Using NestJS'',
      Set_font_size ''title_run'' (Pt 16),
      Set_bold ''title_run'' True,
      Set_font_color ''title_run'' (0, 51, 102),
      Add_paragraph None '''' None,
      Add_paragraph (Some ''subtitle'') '''' None,
      Set_alignment ''subtitle'' CENTER,
      Add_run (Some ''subtitle_run'') ''subtitle'' ''Bachelor Thesis Documentation'',
      Set_font_size ''subtitle_run'' (Pt 14),
      Set_bold ''subtitle_run'' True,
      Add_paragraph None '''' None,
      Add_paragraph None '''' None,
      Add_paragraph None '''' None,
      Add_paragraph (Some ''info'') '''' None,
      Set_alignment ''info'' CENTER]
     @ for_each (str_split CHR ''\<newline>'' info_text) (\<lambda>line.
        [Add_paragraph (Some ''p'') line None,
         Set_alignment ''p'' CENTER,
         Set_paragraph_spacing ''p'' 0 0])
     @ [Add_page_break]"

definition toc_items :: "string list" where
  "toc_items =
     [''1. Abstract'',
      ''2. Introduction'',
      ''3. Theoretical Background'',
      ''4. Technologies and Tools'',
      ''5. System Requirements and Analysis'',
      ''6. System Architecture Design'',
      ''7. Implementation Details'',
      ''8. Testing and Validation'',
      ''9. Security Considerations'',
      ''10. Results and Evaluation'',
      ''11. Future Improvements'',
      ''12. Conclusion'',
      ''13. References'',
      ''14. Appendices'']"

definition table_of_contents :: "stmt list" where
  "table_of_contents =
     [Add_heading ''Table of Contents'' 1]
     @ for_each toc_items (\<lambda>item.
        [Add_paragraph (Some ''p'') item (Some ''List Bullet''),
         Set_paragraph_spacing ''p'' 0 6])
     @ [Add_page_break]"

definition abstract_text :: string where
  "abstract_text =
     ''This thesis presents the design and implementation of a microservice-based system for processing GitHub repository data using the NestJS framework. The system integrates with the GitHub REST API to retrieve and process repository information, manages user authentication through JWT tokens, facilitates email notifications, and implements centralized logging capabilities.\<newline>\<newline>The architecture follows microservices principles, utilizing Docker for containerization and deployment, PostgreSQL for persistent storage, and Redis for caching and logging infrastructure. The primary contribution of this work is demonstrating how modern backend frameworks like NestJS can be effectively used to build scalable, maintainable microservice architectures that handle complex external API integration, authentication, and inter-service communication.\<newline>\<newline>This thesis explores architectural decisions, implementation patterns, security considerations, and best practices for building production-ready microservices. The system is composed of four main services: API Gateway for request routing and authentication, GitHub Stack Service for GitHub API integration, Email Service for notification delivery, and Logger Service for centralized log aggregation.''"

definition abstract :: "stmt list" where
  "abstract =
     [Add_heading ''Abstract'' 1,
      Add_paragraph (Some ''abstract_para'') abstract_text None,
      Set_paragraph_spacing ''abstract_para'' 0 12,
      Add_paragraph (Some ''keywords_para'') '''' None,
      Add_run (Some ''keywords_run'') ''keywords_para'' ''Keywords: '',
      Set_bold ''keywords_run'' True,
      Add_run None ''keywords_para'' ''Microservices, NestJS, GitHub API, Docker, JWT Authentication, Distributed Systems, REST API, TypeORM, Redis, PostgreSQL'',
      Set_paragraph_spacing ''keywords_para'' 0 12,
      Add_page_break]"

definition introduction :: "stmt list" where
  "introduction =
     [Add_heading ''1. Introduction'' 1]"

definition motivation_items :: "string list" where
  "motivation_items =
     [''Efficiently processing and storing GitHub repository metadata'',
      ''Managing user authentication and authorization in a secure manner'',
      ''Delivering asynchronous notifications to users'',
      ''Implementing centralized logging across distributed services'',
      ''Scaling independently based on workload demands'']"

definition section_1_1 :: "stmt list" where
  "section_1_1 =
     [Add_heading ''1.1 Background and Motivation'' 2,
      Add_paragraph None ''The evolution of software architecture over the past two decades has fundamentally transformed how developers approach building large-scale applications. Traditional monolithic architectures, while suitable for smaller projects, have shown significant limitations when addressing the demands of modern distributed systems, particularly in scenarios involving multiple external integrations and varying scalability requirements.'' None,
      Add_paragraph None ''GitHub has become the central platform for collaborative software development, hosting millions of repositories and serving as a critical component in many development workflows. The GitHub platform provides extensive APIs that enable programmatic access to repository data, user information, release management, and event processing. However, leveraging these APIs effectively requires careful handling of rate limits, authentication mechanisms, and data processing workflows.'' None,
      Add_paragraph None ''The motivation for this thesis stems from the practical need to build a backend system capable of:'' None]
     @ for_each motivation_items (\<lambda>item.
        [Add_paragraph None item (Some ''List Bullet'')])
     @ [Add_paragraph None ''The choice of NestJS as the primary framework is motivated by its rich ecosystem, built-in support for microservices patterns, strong TypeScript integration, and comprehensive documentation. NestJS provides excellent abstractions for implementing dependency injection, middleware chains, and module organization, making it an ideal choice for enterprise-grade backend systems.'' None]"

definition problems :: "(string \<times> string) list" where
  "problems =
     [(''Monolithic Limitations'', ''Single-deployment architectures make it difficult to scale specific components independently, leading to inefficient resource utilization and potential bottlenecks.''),
      (''API Rate Limiting'', ''GitHub enforces strict rate limits on API requests. Without proper caching and request management strategies, applications quickly exhaust their quota and fail to respond to user requests.''),
      (''Authentication Complexity'', ''Managing authentication across multiple services while maintaining security requires careful design of token generation, validation, and refresh mechanisms.''),
      (''Asynchronous Operations'', ''Sending email notifications, processing large datasets, and logging operations cannot all be performed synchronously without significant performance degradation.''),
      (''Data Persistence'', ''Storing GitHub data while maintaining consistency, handling concurrent updates, and providing efficient queries requires sophisticated database schema design.''),
      (''Observability'', ''In distributed systems, understanding request flows, identifying bottlenecks, and debugging issues becomes exponentially more complex without proper logging and monitoring infrastructure.'')]"

definition section_1_2 :: "stmt list" where
  "section_1_2 =
     [Add_heading ''1.2 Problem Statement'' 2,
      Add_paragraph None ''Contemporary backend systems face several interconnected challenges when integrating external APIs like GitHub:'' None]
     @ for_each problems (\<lambda>(title, description).
        [Add_paragraph (Some ''p'') '''' None,
         Add_run (Some ''p_run'') ''p'' (title @ '': ''),
         Set_bold ''p_run'' True,
         Add_run None ''p'' description])"

definition objectives :: "string list" where
  "objectives =
     [''Design a Scalable Microservice Architecture: Create a system composed of independent, loosely coupled services that can be developed, deployed, and scaled independently.'',
      ''Implement GitHub API Integration: Build robust integration with GitHub's REST API, handling authentication, pagination, rate limiting, and error scenarios.'',
      ''Develop Email Notification System: Implement a reliable email service capable of sending notifications asynchronously without blocking primary application logic.'',
      ''Establish Centralized Logging: Create a logging infrastructure that aggregates logs from multiple services for analysis and debugging.'',
      ''Ensure Security: Implement industry-standard security practices including JWT authentication, secure configuration management, and API protection.'',
      ''Demonstrate Production Readiness: Implement testing, error handling, and deployment configurations suitable for production environments.'']"

definition section_1_3 :: "stmt list" where
  "section_1_3 =
     [Add_heading ''1.3 Goals and Objectives'' 2,
      Add_paragraph None ''The primary objectives of this thesis are:'' None]
     @ for_each (List.enumerate 1 objectives) (\<lambda>(i, obj).
        [Add_paragraph None obj (Some ''List Number'')])"

definition questions :: "string list" where
  "questions =
     [''How can microservice architecture improve the scalability and maintainability of backend systems compared to monolithic approaches?'',
      ''What are the most effective patterns and practices for integrating external APIs (specifically GitHub) within a microservice architecture?'',
      ''How can NestJS features (dependency injection, modules, guards) be leveraged to build secure, maintainable microservices?'',
      ''What trade-offs exist between service independence and operational complexity when implementing distributed systems?'',
      ''How can centralized logging and monitoring be effectively implemented in a microservice environment?'']"

definition section_1_4 :: "stmt list" where
  "section_1_4 =
     [Add_heading ''1.4 Research Questions'' 2,
      Add_paragraph None ''This thesis aims to answer the following research questions:'' None]
     @ for_each questions (\<lambda>q.
        [Add_paragraph None q (Some ''List Number'')])"

definition structure_text :: string where
  "structure_text =
     ''This documentation is organized into twelve main sections:\<newline>\<newline>'' @ bullet @ '' Theoretical Background (Section 2) establishes foundational concepts in software architecture, microservices principles, and related technologies.\<newline>\<newline>'' @ bullet @ '' Technologies and Tools (Section 3) provides an in-depth overview of the specific technologies employed in the implementation.\<newline>\<newline>'' @ bullet @ '' System Requirements and Analysis (Section 4) details functional and non-functional requirements, use cases, and constraints.\<newline>\<newline>'' @ bullet @ '' System Architecture Design (Section 5) presents the overall system design, including service decomposition and data models.\<newline>\<newline>'' @ bullet @ '' Implementation Details (Section 6) describes how each component was implemented, including code examples and design decisions.\<newline>\<newline>'' @ bullet @ '' Testing and Validation (Section 7) covers testing strategies employed to ensure system correctness.\<newline>\<newline>'' @ bullet @ '' Security Considerations (Section 8) examines security measures implemented throughout the system.\<newline>\<newline>'' @ bullet @ '' Results and Evaluation (Section 9) analyzes the system's performance and achievement of objectives.\<newline>\<newline>'' @ bullet @ '' Future Improvements (Section 10) identifies potential enhancements and extensions.\<newline>\<newline>'' @ bullet @ '' Conclusion (Section 11) summarizes findings and addresses the research questions.''"

definition section_1_5 :: "stmt list" where
  "section_1_5 =
     [Add_heading ''1.5 Thesis Structure Overview'' 2,
      Add_paragraph None structure_text None,
      Add_page_break]"

definition theoretical_background :: "stmt list" where
  "theoretical_background =
     [Add_heading ''2. Theoretical Background'' 1]"

definition section_2_1 :: "stmt list" where
  "section_2_1 =
     [Add_heading ''2.1 Software Architecture Concepts'' 2]"

definition char_mono :: "string list" where
  "char_mono =
     [''Single codebase and deployment unit'',
      ''Shared database'',
      ''Tight coupling between components'',
      ''Unified technology stack'']"

definition adv_mono :: "string list" where
  "adv_mono =
     [''Simpler initial development'',
      ''Easier debugging and testing in early stages'',
      ''Straightforward deployment process'']"

definition dis_mono :: "string list" where
  "dis_mono =
     [''Difficult to scale individual components'',
      ''Technology lock-in'',
      ''Higher risk of cascading failures'',
      ''Slower development cycles for large teams'',
      ''Complex to modify and maintain'']"

definition section_2_1_1 :: "stmt list" where
  "section_2_1_1 =
     [Add_heading ''2.1.1 Monolithic Architecture'' 3,
      Add_paragraph None ''A monolithic architecture represents the traditional approach to software design where an entire application is built as a single, unified codebase and deployed as a single unit. All features, business logic, and data access layers are tightly integrated within one application.'' None,
      Add_paragraph None ''Characteristics:'' None]
     @ for_each char_mono (\<lambda>char.
        [Add_paragraph None char (Some ''List Bullet'')])
     @ [Add_paragraph None ''Advantages:'' None]
     @ for_each adv_mono (\<lambda>adv.
        [Add_paragraph None adv (Some ''List Bullet'')])
     @ [Add_paragraph None ''Disadvantages:'' None]
     @ for_each dis_mono (\<lambda>dis.
        [Add_paragraph None dis (Some ''List Bullet'')])"

definition soa_intro :: string where
  "soa_intro =
     ''Service-Oriented Architecture (SOA) is an intermediate approach between monolithic and microservices architectures. It breaks down a system into loosely coupled, reusable services that communicate through well-defined interfaces, typically using web services (SOAP, XML-RPC).''"

definition char_soa :: "string list" where
  "char_soa =
     [''Services are independent but may share databases'',
      ''Services communicate through formal contracts'',
      ''Emphasis on service reusability'',
      ''Enterprise Service Bus (ESB) for message routing'']"

definition section_2_1_2 :: "stmt list" where
  "section_2_1_2 =
     [Add_heading ''2.1.2 Service-Oriented Architecture (SOA)'' 3,
      Add_paragraph None soa_intro None,
      Add_paragraph None ''Characteristics:'' None]
     @ for_each char_soa (\<lambda>char.
        [Add_paragraph None char (Some ''List Bullet'')])"

definition microservices_intro :: string where
  "microservices_intro =
     ''Microservice architecture extends SOA principles further by emphasizing service independence, decentralized data management, and lightweight communication protocols. Each microservice is typically responsible for a single business capability and can be developed, deployed, and scaled independently.''"

definition char_ms :: "string list" where
  "char_ms =
     [''Small, focused services'',
      ''Independent data stores per service'',
      ''Lightweight communication (HTTP, event-based)'',
      ''Decentralized development and deployment'',
      ''Each service deployable independently'']"

definition adv_ms :: "string list" where
  "adv_ms =
     [''True scalability - scale only what's needed'',
      ''Technology flexibility per service'',
      ''Independent development cycles'',
      ''Fault isolation'',
      ''Rapid deployment and iteration'',
      ''Language and framework diversity'']"

definition section_2_1_3 :: "stmt list" where
  "section_2_1_3 =
     [Add_heading ''2.1.3 Microservice Architecture'' 3,
      Add_paragraph None microservices_intro None,
      Add_paragraph None ''Characteristics:'' None]
     @ for_each char_ms (\<lambda>char.
        [Add_paragraph None char (Some ''List Bullet'')])
     @ [Add_paragraph None ''Advantages:'' None]
     @ for_each adv_ms (\<lambda>adv.
        [Add_paragraph None adv (Some ''List Bullet'')])"

definition data :: "(string list) list" where
  "data =
     [[''Deployment'',
      ''Single unit'',
      ''Multiple services'',
      ''Independent services''],
      [''Scalability'',
      ''Component level'',
      ''Service level'',
      ''Fine-grained''],
      [''Technology'',
      ''Unified'',
      ''Mixed'',
      ''Flexible per service''],
      [''Data Management'',
      ''Shared DB'',
      ''Often shared'',
      ''Independent per service'']]"

definition section_2_1_4 :: "stmt list" where
  "section_2_1_4 =
     [Add_heading ''2.1.4 Comparison and Trade-offs'' 3,
      Add_table ''table'' 5 4,
      Set_style ''table'' ''Light Grid Accent 1'',
      Get_row_cells ''header_cells'' ''table'' 0,
      Set_cell_text ''header_cells'' 0 ''Aspect'',
      Set_cell_text ''header_cells'' 1 ''Monolithic'',
      Set_cell_text ''header_cells'' 2 ''SOA'',
      Set_cell_text ''header_cells'' 3 ''Microservices'']
     @ for_each (List.enumerate 1 data) (\<lambda>(i, row_data).
        [Get_row_cells ''cells'' ''table'' i]
        @ for_each (List.enumerate 0 row_data) (\<lambda>(j, cell_data).
           [Set_cell_text ''cells'' j cell_data]))"

definition principles :: "(string \<times> string) list" where
  "principles =
     [(''Service Independence'', ''Each microservice should be independently deployable and developable. Services have their own codebase, can be deployed without redeploying others, can use different technology stacks, and can be developed by different teams.''),
      (''Decentralized Data Management'', ''Rather than sharing a single database, each microservice manages its own data store. Services own their data schema, database schemas evolve independently, and data consistency is eventual rather than immediate.''),
      (''Fault Isolation'', ''Failure of one service should not cascade to other services. Services communicate asynchronously when possible, circuit breakers prevent cascading failures, timeouts and retries are essential, and service discovery enables automatic recovery.''),
      (''Scalability and Resilience'', ''Microservices architectures enable granular scaling. Services can be scaled independently based on demand, different services may require different infrastructure, horizontal scaling is straightforward, and load balancing distributes requests.'')]"

definition section_2_2 :: "stmt list" where
  "section_2_2 =
     [Add_heading ''2.2 Microservices Principles'' 2]
     @ for_each principles (\<lambda>(title, description).
        [Add_heading (''2.2.'' @ str_nat (length (filter (\<lambda>p. str_le (fst p) title) principles)) @ '' '' @ title) 3,
         Add_paragraph None description None])"

definition section_2_3 :: "stmt list" where
  "section_2_3 =
     [Add_heading ''2.3 Backend Frameworks for Microservices'' 2]"

definition nestjs_info :: string where
  "nestjs_info =
     ''NestJS is a progressive Node.js framework for building efficient, scalable server-side applications. It uses TypeScript by default and combines elements of OOP (Object Oriented Programming), FP (Functional Programming), and FRP (Functional Reactive Programming).\<newline>\<newline>Key features of NestJS:\<newline>\<newline>'' @ bullet @ '' Strong TypeScript Support: Full TypeScript-first design with compile-time type checking\<newline>'' @ bullet @ '' Dependency Injection: Powerful built-in IoC container for managing dependencies\<newline>'' @ bullet @ '' Module System: Organized structure with module encapsulation and feature-based organization\<newline>'' @ bullet @ '' Decorators: Simplify common patterns like routing, validation, and authentication\<newline>'' @ bullet @ '' Middleware & Guards: Support for cross-cutting concerns\<newline>'' @ bullet @ '' Exception Handling: Built-in exception filters and error handling\<newline>'' @ bullet @ '' Database Integration: Seamless integration with TypeORM, Sequelize, Mongoose\<newline>'' @ bullet @ '' Microservices Support: Built-in support for microservices patterns and message queues\<newline>'' @ bullet @ '' WebSockets: Native support for real-time communication\<newline>'' @ bullet @ '' Testing: Excellent support for unit and integration testing''"

definition section_2_3_1 :: "stmt list" where
  "section_2_3_1 =
     [Add_heading ''2.3.1 NestJS Framework'' 3,
      Add_paragraph None nestjs_info None,
      Add_page_break]"

definition technologies_and_tools :: "stmt list" where
  "technologies_and_tools =
     [Add_heading ''3. Technologies and Tools'' 1]"

definition typescript_intro :: string where
  "typescript_intro =
     ''TypeScript is a superset of JavaScript that adds static typing and advanced language features. It provides compile-time type checking, excellent IDE support, and improves code maintainability.''"

definition ts_benefits :: "string list" where
  "ts_benefits =
     [''Static Type Checking: Errors caught at compile-time rather than runtime'',
      ''Enhanced IDE Support: Accurate autocomplete, jump to definition, refactoring'',
      ''Self-Documenting Code: Type annotations serve as inline documentation'',
      ''Better Maintainability: Easier to understand code intent and facilitate team collaboration'',
      ''Advanced Features: Interfaces, generics, enums, decorators for metadata annotations'']"

definition section_3_1 :: "stmt list" where
  "section_3_1 =
     [Add_heading ''3.1 Programming Language: TypeScript'' 2,
      Add_paragraph None typescript_intro None,
      Add_paragraph None ''Key Benefits:'' None]
     @ for_each ts_benefits (\<lambda>benefit.
        [Add_paragraph None benefit (Some ''List Bullet'')])"

definition db_intro :: string where
  "db_intro =
     ''PostgreSQL is a powerful, open-source relational database system. It provides ACID compliance, complex queries, transactions, and excellent performance for structured data.''"

definition typeorm_features :: "string list" where
  "typeorm_features =
     [''Decorator-based entity definition'',
      ''Type-safe queries'',
      ''Automatic migrations'',
      ''Relation management'',
      ''Query builder for complex queries'']"

definition section_3_2 :: "stmt list" where
  "section_3_2 =
     [Add_heading ''3.2 Database: PostgreSQL and TypeORM'' 2,
      Add_paragraph None db_intro None,
      Add_paragraph None ''TypeORM is an ORM that bridges the gap between object-oriented code and relational databases:'' None]
     @ for_each typeorm_features (\<lambda>feature.
        [Add_paragraph None feature (Some ''List Bullet'')])"

definition redis_intro :: string where
  "redis_intro =
     ''Redis is an in-memory data structure store used for caching, sessions, and message queues. It provides fast access to frequently used data and supports multiple data types (strings, lists, sets, hashes).''"

definition redis_uses :: "string list" where
  "redis_uses =
     [''Caching frequently accessed data to reduce database load'',
      ''Session storage for user authentication'',
      ''Message queues for asynchronous operations'',
      ''Logging aggregation from multiple services'']"

definition section_3_3 :: "stmt list" where
  "section_3_3 =
     [Add_heading ''3.3 Redis'' 2,
      Add_paragraph None redis_intro None,
      Add_paragraph None ''Use Cases in this Project:'' None]
     @ for_each redis_uses (\<lambda>use.
        [Add_paragraph None use (Some ''List Bullet'')])"

definition docker_intro :: string where
  "docker_intro =
     ''Docker enables containerization of applications, providing consistency across development, testing, and production environments. Docker Compose orchestrates multiple containers for local development and deployment.''"

definition docker_benefits :: "string list" where
  "docker_benefits =
     [''Development: Consistent environment across developers'',
      ''Testing: Reproducible test environment'',
      ''Deployment: Same containers move from dev to production'',
      ''Scaling: Easily replicate services'',
      ''Isolation: Services run in isolated environments'']"

definition section_3_4 :: "stmt list" where
  "section_3_4 =
     [Add_heading ''3.4 Docker and Docker Compose'' 2,
      Add_paragraph None docker_intro None,
      Add_paragraph None ''Benefits:'' None]
     @ for_each docker_benefits (\<lambda>benefit.
        [Add_paragraph None benefit (Some ''List Bullet'')])"

definition section_3_5 :: "stmt list" where
  "section_3_5 =
     [Add_heading ''3.5 External Services'' 2]"

definition github_info :: string where
  "github_info =
     ''GitHub provides a comprehensive REST API for programmatic access to repository data. The system uses Personal Access Tokens for authentication, supporting scopes like 'repo', 'gist', 'user' etc.\<newline>\<newline>Key API Features:\<newline>'' @ bullet @ '' Repository operations and metadata retrieval\<newline>'' @ bullet @ '' Release management and version tracking\<newline>'' @ bullet @ '' User and organization information\<newline>'' @ bullet @ '' Event streaming and webhooks\<newline>'' @ bullet @ '' Search functionality with advanced filters\<newline>'' @ bullet @ '' Rate limiting: 5,000 requests/hour per authenticated user''"

definition section_3_5_1 :: "stmt list" where
  "section_3_5_1 =
     [Add_heading ''3.5.1 GitHub REST API'' 3,
      Add_paragraph None github_info None]"

definition email_info :: string where
  "email_info =
     ''The system supports multiple email providers through Nodemailer:\<newline>'' @ bullet @ '' Gmail with App Passwords\<newline>'' @ bullet @ '' Custom SMTP servers\<newline>'' @ bullet @ '' Third-party services (SendGrid, Mailgun, AWS SES)\<newline>\<newline>Email delivery is asynchronous to prevent blocking primary application logic.''"

definition section_3_5_2 :: "stmt list" where
  "section_3_5_2 =
     [Add_heading ''3.5.2 Email Services'' 3,
      Add_paragraph None email_info None,
      Add_page_break]"

definition system_requirements_and_analysis :: "stmt list" where
  "system_requirements_and_analysis =
     [Add_heading ''4. System Requirements and Analysis'' 1]"

definition section_4_1 :: "stmt list" where
  "section_4_1 =
     [Add_heading ''4.1 Functional Requirements'' 2]"

definition user_reqs :: "string list" where
  "user_reqs =
     [''F1.1: Users must be able to register with username, email, and password'',
      ''F1.2: Users must be able to login with credentials'',
      ''F1.3: Users must be able to update their profile information'',
      ''F1.4: Users must be able to logout and invalidate their session'',
      ''F1.5: System must support password reset functionality'']"

definition section_4_1_1 :: "stmt list" where
  "section_4_1_1 =
     [Add_heading ''4.1.1 User Management'' 3]
     @ for_each user_reqs (\<lambda>req.
        [Add_paragraph None req (Some ''List Bullet'')])"

definition github_reqs :: "string list" where
  "github_reqs =
     [''F2.1: System must fetch repository information from GitHub API'',
      ''F2.2: System must store retrieved repository data in database'',
      ''F2.3: System must support repository search functionality'',
      ''F2.4: System must retrieve and display repository releases'',
      ''F2.5: System must handle GitHub API rate limiting gracefully'',
      ''F2.6: System must support pagination for large result sets'']"

definition section_4_1_2 :: "stmt list" where
  "section_4_1_2 =
     [Add_heading ''4.1.2 GitHub Integration'' 3]
     @ for_each github_reqs (\<lambda>req.
        [Add_paragraph None req (Some ''List Bullet'')])"

definition email_reqs :: "string list" where
  "email_reqs =
     [''F3.1: System must send email confirmations after user registration'',
      ''F3.2: System must send email notifications for important events'',
      ''F3.3: System must support asynchronous email delivery'',
      ''F3.4: System must log email sending attempts and results'',
      ''F3.5: System must support email template customization'']"

definition section_4_1_3 :: "stmt list" where
  "section_4_1_3 =
     [Add_heading ''4.1.3 Email Notifications'' 3]
     @ for_each email_reqs (\<lambda>req.
        [Add_paragraph None req (Some ''List Bullet'')])"

definition log_reqs :: "string list" where
  "log_reqs =
     [''F4.1: System must log all API requests'',
      ''F4.2: System must log errors and exceptions with stack traces'',
      ''F4.3: System must aggregate logs from all services'',
      ''F4.4: System must support different log levels (debug, info, warn, error)'',
      ''F4.5: System must persist logs for historical analysis'']"

definition section_4_1_4 :: "stmt list" where
  "section_4_1_4 =
     [Add_heading ''4.1.4 Logging'' 3]
     @ for_each log_reqs (\<lambda>req.
        [Add_paragraph None req (Some ''List Bullet'')])"

definition section_4_2 :: "stmt list" where
  "section_4_2 =
     [Add_heading ''4.2 Non-Functional Requirements'' 2]"

definition perf_reqs :: "string list" where
  "perf_reqs =
     [''NF1.1: API responses for cached data must complete within 100ms'',
      ''NF1.2: API responses for fresh data must complete within 2 seconds'',
      ''NF1.3: Email delivery must complete within 5 seconds from API call'',
      ''NF1.4: System must handle 100 concurrent users without degradation'']"

definition section_4_2_1 :: "stmt list" where
  "section_4_2_1 =
     [Add_heading ''4.2.1 Performance'' 3]
     @ for_each perf_reqs (\<lambda>req.
        [Add_paragraph None req (Some ''List Bullet'')])"

definition scalability_reqs :: "string list" where
  "scalability_reqs =
     [''NF2.1: Each service must be independently scalable'',
      ''NF2.2: System must support horizontal scaling of stateless services'',
      ''NF2.3: Database connection pooling must prevent resource exhaustion'',
      ''NF2.4: Cache must support distributed invalidation'']"

definition section_4_2_2 :: "stmt list" where
  "section_4_2_2 =
     [Add_heading ''4.2.2 Scalability'' 3]
     @ for_each scalability_reqs (\<lambda>req.
        [Add_paragraph None req (Some ''List Bullet'')])"

definition sec_reqs :: "string list" where
  "sec_reqs =
     [''NF4.1: All sensitive data must be encrypted in transit (TLS)'',
      ''NF4.2: All sensitive data must be encrypted at rest'',
      ''NF4.3: JWT tokens must be signed with strong algorithms'',
      ''NF4.4: API credentials must never be logged or exposed'']"

definition section_4_2_3 :: "stmt list" where
  "section_4_2_3 =
     [Add_heading ''4.2.3 Security'' 3]
     @ for_each sec_reqs (\<lambda>req.
        [Add_paragraph None req (Some ''List Bullet'')])"

definition section_4_3 :: "stmt list" where
  "section_4_3 =
     [Add_heading ''4.3 User Roles and Use Cases'' 2]"

definition roles :: "(string \<times> string list) list" where
  "roles =
     [(''Anonymous User'', [''Can browse public information (if available)'',
      ''Can register for an account'',
      ''Cannot access protected resources'']),
      (''Authenticated User'', [''Can access their own data'',
      ''Can search for repositories'',
      ''Can manage their profile'',
      ''Can receive email notifications'']),
      (''System Administrator'', [''Can monitor system health'',
      ''Can view logs from all services'',
      ''Can manage user accounts'',
      ''Can configure system parameters''])]"

definition section_4_3_1 :: "stmt list" where
  "section_4_3_1 =
     [Add_heading ''4.3.1 User Roles'' 3]
     @ for_each roles (\<lambda>(role_name, role_perms).
        [Add_heading role_name 4]
        @ for_each role_perms (\<lambda>perm.
           [Add_paragraph None perm (Some ''List Bullet'')]))"

definition constraints :: "string list" where
  "constraints =
     [''GitHub API: 5,000 requests per hour for authenticated users, rate limiting enforcement'',
      ''Email Provider: Rate limits and bounce handling required'',
      ''Database: PostgreSQL version 12 or higher'',
      ''Node.js: Version 16 or higher'',
      ''Docker: Version 20.10 or higher'',
      ''Internet: Persistent connection required for external APIs'']"

definition section_4_4 :: "stmt list" where
  "section_4_4 =
     [Add_heading ''4.4 System Constraints and Assumptions'' 2]
     @ for_each constraints (\<lambda>constraint.
        [Add_paragraph None constraint (Some ''List Bullet'')])
     @ [Add_page_break]"

definition system_architecture_design :: "stmt list" where
  "system_architecture_design =
     [Add_heading ''5. System Architecture Design'' 1]"

definition arch_intro :: string where
  "arch_intro =
     ''The system follows a microservice-based architecture with the following main components:\<newline>\<newline>1. API Gateway: Single entry point for all client requests, handles authentication, routing, and aggregation\<newline>2. GitHub Stack Service: Core service for GitHub API integration and repository management\<newline>3. Email Service: Handles asynchronous email delivery\<newline>4. Logger Service: Centralized log aggregation and analysis\<newline>5. PostgreSQL Database: Persistent storage for users, repositories, and metadata\<newline>6. Redis: In-memory cache and message queue for inter-service communication''"

definition section_5_1 :: "stmt list" where
  "section_5_1 =
     [Add_heading ''5.1 Overall Architecture Overview'' 2,
      Add_paragraph None arch_intro None]"

definition section_5_2 :: "stmt list" where
  "section_5_2 =
     [Add_heading ''5.2 Service Responsibilities'' 2]"

definition gateway_resp :: "string list" where
  "gateway_resp =
     [''Request routing to appropriate services'',
      ''Authentication enforcement (JWT validation)'',
      ''Request validation and sanitization'',
      ''Response aggregation'',
      ''Rate limiting and throttling'',
      ''Load balancing across service instances'']"

definition section_5_2_1 :: "stmt list" where
  "section_5_2_1 =
     [Add_heading ''5.2.1 API Gateway'' 3]
     @ for_each gateway_resp (\<lambda>resp.
        [Add_paragraph None resp (Some ''List Bullet'')])"

definition github_stack_resp :: "string list" where
  "github_stack_resp =
     [''GitHub REST API integration'',
      ''Repository data retrieval and caching'',
      ''Release management'',
      ''Rate limit handling'',
      ''Data transformation and validation'',
      ''Background job scheduling for syncing'']"

definition section_5_2_2 :: "stmt list" where
  "section_5_2_2 =
     [Add_heading ''5.2.2 GitHub Stack Service'' 3]
     @ for_each github_stack_resp (\<lambda>resp.
        [Add_paragraph None resp (Some ''List Bullet'')])"

definition email_resp :: "string list" where
  "email_resp =
     [''Asynchronous email queue processing'',
      ''SMTP configuration management'',
      ''Email template rendering'',
      ''Delivery tracking and logging'',
      ''Retry logic for failed deliveries'']"

definition section_5_2_3 :: "stmt list" where
  "section_5_2_3 =
     [Add_heading ''5.2.3 Email Service'' 3]
     @ for_each email_resp (\<lambda>resp.
        [Add_paragraph None resp (Some ''List Bullet'')])"

definition logger_resp :: "string list" where
  "logger_resp =
     [''Centralized log aggregation'',
      ''Log persistence and storage'',
      ''Log search and filtering'',
      ''Metrics and analytics'',
      ''Alert generation for critical events'']"

definition section_5_2_4 :: "stmt list" where
  "section_5_2_4 =
     [Add_heading ''5.2.4 Logger Service'' 3]
     @ for_each logger_resp (\<lambda>resp.
        [Add_paragraph None resp (Some ''List Bullet'')])"

definition db_design :: string where
  "db_design =
     ''The system uses PostgreSQL with TypeORM for data persistence. Key entities include:\<newline>\<newline>'' @ bullet @ '' User: Stores user accounts with authentication credentials\<newline>'' @ bullet @ '' Repository: Caches GitHub repository information\<newline>'' @ bullet @ '' Release: Tracks GitHub releases and versions\<newline>'' @ bullet @ '' AuthToken: Manages JWT tokens and refresh tokens\<newline>\<newline>All entities include timestamps for audit trails and support relationships for data integrity.''"

definition section_5_3 :: "stmt list" where
  "section_5_3 =
     [Add_heading ''5.3 Database Design'' 2,
      Add_paragraph None db_design None]"

definition comm_intro :: string where
  "comm_intro =
     ''Services communicate using REST APIs with HTTP. For asynchronous operations, Redis message queues are used to decouple services:\<newline>\<newline>1. Synchronous: Gateway calls GitHub Stack Service for API requests\<newline>2. Asynchronous: Email Service consumes messages from Redis queue\<newline>3. Logging: All services push logs to Redis and Logger Service\<newline>\<newline>This design ensures services remain loosely coupled and can fail independently.''"

definition section_5_4 :: "stmt list" where
  "section_5_4 =
     [Add_heading ''5.4 Communication Patterns'' 2,
      Add_paragraph None comm_intro None,
      Add_page_break]"

definition implementation_details :: "stmt list" where
  "implementation_details =
     [Add_heading ''6. Implementation Details'' 1]"

definition structure_intro :: string where
  "structure_intro =
     ''The project follows a monorepo structure using NestJS CLI:\<newline>\<newline>GitHub_Project/\<newline>  '' @ box_tee @ box_dash @ box_dash @ '' apps/\<newline>  '' @ box_bar @ ''   '' @ box_tee @ box_dash @ box_dash @ '' gateway/          # API Gateway service\<newline>  '' @ box_bar @ ''   '' @ box_tee @ box_dash @ box_dash @ '' github-stack/     # GitHub integration service\<newline>  '' @ box_bar @ ''   '' @ box_tee @ box_dash @ box_dash @ '' email/            # Email delivery service\<newline>  '' @ box_bar @ ''   '' @ box_corner @ box_dash @ box_dash @ '' logger/           # Logging aggregation service\<newline>  '' @ box_tee @ box_dash @ box_dash @ '' docker-compose.yaml   # Service orchestration\<newline>  '' @ box_tee @ box_dash @ box_dash @ '' package.json         # Shared dependencies\<newline>  '' @ box_corner @ box_dash @ box_dash @ '' tsconfig.json        # TypeScript configuration\<newline>\<newline>Each service is independently deployable with its own Dockerfile.''"

definition section_6_1 :: "stmt list" where
  "section_6_1 =
     [Add_heading ''6.1 Project Structure'' 2,
      Add_paragraph None structure_intro None]"

definition tech_data :: "(string list) list" where
  "tech_data =
     [[''Framework'',
      ''NestJS 10+''],
      [''Language'',
      ''TypeScript 5+''],
      [''Database'',
      ''PostgreSQL 15''],
      [''Cache/Queue'',
      ''Redis 7''],
      [''Runtime'',
      ''Node.js 18+''],
      [''Containerization'',
      ''Docker & Docker Compose'']]"

definition section_6_2 :: "stmt list" where
  "section_6_2 =
     [Add_heading ''6.2 Technology Stack Summary'' 2,
      Add_table ''tech_table'' 7 2,
      Set_style ''tech_table'' ''Light Grid Accent 1'',
      Get_row_cells ''headers'' ''tech_table'' 0,
      Set_cell_text ''headers'' 0 ''Component'',
      Set_cell_text ''headers'' 1 ''Technology'']
     @ for_each (List.enumerate 1 tech_data) (\<lambda>(i, row_data).
        [Get_row_cells ''cells'' ''tech_table'' i,
         subscript row_data 0 (Set_cell_text ''cells'' 0),
         subscript row_data 1 (Set_cell_text ''cells'' 1)])"

definition deps_intro :: string where
  "deps_intro =
     ''The project uses several key libraries to support microservices architecture:\<newline>\<newline>Core NestJS Packages:\<newline>'' @ bullet @ '' @nestjs/common: Core functionality\<newline>'' @ bullet @ '' @nestjs/platform-express: HTTP server\<newline>'' @ bullet @ '' @nestjs/typeorm: Database ORM integration\<newline>'' @ bullet @ '' @nestjs/jwt: JWT authentication\<newline>'' @ bullet @ '' @nestjs/config: Configuration management\<newline>'' @ bullet @ '' @nestjs/schedule: Task scheduling\<newline>'' @ bullet @ '' @nestjs/axios: HTTP client for external APIs\<newline>\<newline>Data and Persistence:\<newline>'' @ bullet @ '' typeorm: Object-relational mapping\<newline>'' @ bullet @ '' pg: PostgreSQL driver\<newline>'' @ bullet @ '' ioredis: Redis client\<newline>\<newline>Authentication:\<newline>'' @ bullet @ '' passport: Authentication middleware\<newline>'' @ bullet @ '' passport-jwt: JWT strategy\<newline>'' @ bullet @ '' bcrypt: Password hashing\<newline>\<newline>Utilities:\<newline>'' @ bullet @ '' class-validator: Data validation\<newline>'' @ bullet @ '' class-transformer: DTO transformation\<newline>'' @ bullet @ '' nodemailer: Email sending\<newline>'' @ bullet @ '' axios: HTTP requests''"

definition section_6_3 :: "stmt list" where
  "section_6_3 =
     [Add_heading ''6.3 Key Libraries and Dependencies'' 2,
      Add_paragraph None deps_intro None]"

definition security_impl :: string where
  "security_impl =
     ''Security is implemented at multiple layers:\<newline>\<newline>1. Authentication: JWT-based authentication with access and refresh tokens\<newline>2. Authorization: Role-based access control (RBAC) on protected endpoints\<newline>3. Input Validation: Class-validator pipes for all DTOs\<newline>4. Password Security: bcrypt hashing with salt rounds\<newline>5. Configuration: Environment variables for sensitive data\<newline>6. CORS: Configured to allow only trusted origins\<newline>7. Rate Limiting: Express rate-limit middleware on API endpoints\<newline>8. Error Handling: Proper exception filters to avoid information leakage''"

definition section_6_4 :: "stmt list" where
  "section_6_4 =
     [Add_heading ''6.4 Security Implementation'' 2,
      Add_paragraph None security_impl None]"

definition testing_info :: string where
  "testing_info =
     ''The project implements a comprehensive testing strategy:\<newline>\<newline>Unit Tests:\<newline>'' @ bullet @ '' Test individual services and utilities in isolation\<newline>'' @ bullet @ '' Mock external dependencies\<newline>'' @ bullet @ '' Use Jest with coverage reports\<newline>\<newline>Integration Tests:\<newline>'' @ bullet @ '' Test service interactions with databases\<newline>'' @ bullet @ '' Test API gateway routing\<newline>'' @ bullet @ '' Test external API calls with mocks\<newline>\<newline>End-to-End (E2E) Tests:\<newline>'' @ bullet @ '' Test complete user workflows\<newline>'' @ bullet @ '' Test authentication flows\<newline>'' @ bullet @ '' Test error scenarios and edge cases\<newline>\<newline>Test Configuration:\<newline>'' @ bullet @ '' Jest as test runner\<newline>'' @ bullet @ '' ts-jest for TypeScript support\<newline>'' @ bullet @ '' @nestjs/testing for NestJS utilities\<newline>'' @ bullet @ '' supertest for HTTP testing''"

definition section_6_5 :: "stmt list" where
  "section_6_5 =
     [Add_heading ''6.5 Testing Strategy'' 2,
      Add_paragraph None testing_info None,
      Add_page_break]"

definition security_considerations :: "stmt list" where
  "security_considerations =
     [Add_heading ''7. Security Considerations'' 1]"

definition config_intro :: string where
  "config_intro =
     ''Sensitive configuration is managed through environment variables:\<newline>\<newline>Development (.env file - not committed):\<newline>'' @ bullet @ '' Database credentials\<newline>'' @ bullet @ '' GitHub access token\<newline>'' @ bullet @ '' JWT secrets\<newline>'' @ bullet @ '' Email provider credentials\<newline>\<newline>Production (Environment variables):\<newline>'' @ bullet @ '' Set in deployment platform (Docker, Kubernetes, Cloud providers)\<newline>'' @ bullet @ '' Never hardcoded in source code\<newline>'' @ bullet @ '' Rotated regularly\<newline>'' @ bullet @ '' Validated on startup''"

definition section_7_1 :: "stmt list" where
  "section_7_1 =
     [Add_heading ''7.1 Secure Configuration Management'' 2,
      Add_paragraph None config_intro None]"

definition auth_info :: string where
  "auth_info =
     ''JWT-based Authentication:\<newline>\<newline>1. User Registration: Password hashed with bcrypt (10 salt rounds)\<newline>2. User Login: Validates credentials and issues tokens\<newline>3. Access Token: Short-lived (15 minutes) for API requests\<newline>4. Refresh Token: Long-lived (7 days) for obtaining new access tokens\<newline>5. Token Validation: Verified on every protected endpoint\<newline>\<newline>Authorization:\<newline>'' @ bullet @ '' Role-based access control (RBAC)\<newline>'' @ bullet @ '' Guards prevent unauthorized access\<newline>'' @ bullet @ '' Different endpoints have different permission requirements''"

definition section_7_2 :: "stmt list" where
  "section_7_2 =
     [Add_heading ''7.2 Authentication and Authorization'' 2,
      Add_paragraph None auth_info None]"

definition data_protect :: string where
  "data_protect =
     ''Data is protected through:\<newline>\<newline>In Transit:\<newline>'' @ bullet @ '' TLS/SSL encryption for all HTTP connections\<newline>'' @ bullet @ '' HTTPS enforced in production\<newline>'' @ bullet @ '' Secure SMTP connections for email\<newline>\<newline>At Rest:\<newline>'' @ bullet @ '' Database encryption supported\<newline>'' @ bullet @ '' Sensitive fields encrypted with custom transformers\<newline>'' @ bullet @ '' Secure password hashing\<newline>\<newline>API Security:\<newline>'' @ bullet @ '' Input validation for all requests\<newline>'' @ bullet @ '' SQL injection prevention through TypeORM\<newline>'' @ bullet @ '' CSRF protection\<newline>'' @ bullet @ '' Rate limiting to prevent brute force attacks\<newline>'' @ bullet @ '' XSS prevention through proper response handling''"

definition section_7_3 :: "stmt list" where
  "section_7_3 =
     [Add_heading ''7.3 Data Protection'' 2,
      Add_paragraph None data_protect None]"

definition external_api :: string where
  "external_api =
     ''GitHub API Integration:\<newline>\<newline>'' @ bullet @ '' Personal Access Tokens never logged\<newline>'' @ bullet @ '' Rate limit headers monitored\<newline>'' @ bullet @ '' Exponential backoff for rate limits\<newline>'' @ bullet @ '' Error responses don't leak sensitive data\<newline>'' @ bullet @ '' Request validation and sanitization\<newline>\<newline>Email Service:\<newline>\<newline>'' @ bullet @ '' SMTP credentials in environment variables\<newline>'' @ bullet @ '' TLS required for email transmission\<newline>'' @ bullet @ '' Email validation before sending\<newline>'' @ bullet @ '' No credentials in logs\<newline>'' @ bullet @ '' Secure headers prevent email injection''"

definition section_7_4 :: "stmt list" where
  "section_7_4 =
     [Add_heading ''7.4 External API Security'' 2,
      Add_paragraph None external_api None,
      Add_page_break]"

definition results_and_evaluation :: "stmt list" where
  "results_and_evaluation =
     [Add_heading ''8. Results and Evaluation'' 1]"

definition performance_intro :: string where
  "performance_intro =
     ''The implemented system demonstrates solid performance characteristics:\<newline>\<newline>Response Times:\<newline>'' @ bullet @ '' Cached data retrieval: 50-100ms\<newline>'' @ bullet @ '' Fresh API calls: 800-1500ms\<newline>'' @ bullet @ '' Database operations: 100-300ms\<newline>'' @ bullet @ '' Email sending: 2000-5000ms\<newline>\<newline>Throughput:\<newline>'' @ bullet @ '' Gateway: 500+ requests/second\<newline>'' @ bullet @ '' GitHub Service: 200+ requests/second\<newline>'' @ bullet @ '' Email Service: 50+ emails/second\<newline>\<newline>Resource Usage:\<newline>'' @ bullet @ '' Gateway: 80-120MB memory\<newline>'' @ bullet @ '' GitHub Service: 100-150MB memory\<newline>'' @ bullet @ '' Database: 200-300MB memory\<newline>'' @ bullet @ '' Redis: 50-100MB memory''"

definition section_8_1 :: "stmt list" where
  "section_8_1 =
     [Add_heading ''8.1 System Performance'' 2,
      Add_paragraph None performance_intro None]"

definition scalability :: string where
  "scalability =
     ''Horizontal Scaling Capabilities:\<newline>\<newline>Single Instance Baseline:\<newline>'' @ bullet @ '' Throughput: 500 req/sec\<newline>'' @ bullet @ '' Response time (p95): 400ms\<newline>'' @ bullet @ '' Database CPU: 60-70%\<newline>\<newline>After Scaling (3x Gateway, 3x GitHub Service):\<newline>'' @ bullet @ '' Throughput: 1500 req/sec (3x improvement)\<newline>'' @ bullet @ '' Response time (p95): 200ms (50% improvement)\<newline>'' @ bullet @ '' Database CPU: Remains at 20-30% due to caching\<newline>\<newline>Scaling Benefits:\<newline>'' @ bullet @ '' Independent service scaling\<newline>'' @ bullet @ '' Load distributed across instances\<newline>'' @ bullet @ '' Better resource utilization\<newline>'' @ bullet @ '' Improved fault tolerance\<newline>'' @ bullet @ '' Easier maintenance and updates''"

definition section_8_2 :: "stmt list" where
  "section_8_2 =
     [Add_heading ''8.2 Scalability Evaluation'' 2,
      Add_paragraph None scalability None]"

definition objectives_met :: string where
  "objectives_met =
     ''1. Scalable Microservice Architecture: '' @ check_mark @ '' Achieved\<newline>   '' @ bullet @ '' Four independent services that can be deployed separately\<newline>   '' @ bullet @ '' Horizontal scaling demonstrated\<newline>\<newline>2. GitHub API Integration: '' @ check_mark @ '' Achieved\<newline>   '' @ bullet @ '' Successfully integrated GitHub REST API\<newline>   '' @ bullet @ '' Handles rate limiting and caching\<newline>   '' @ bullet @ '' Proper error handling\<newline>\<newline>3. Email Notification System: '' @ check_mark @ '' Achieved\<newline>   '' @ bullet @ '' Asynchronous email delivery\<newline>   '' @ bullet @ '' Multiple provider support\<newline>   '' @ bullet @ '' Delivery tracking\<newline>\<newline>4. Centralized Logging: '' @ check_mark @ '' Achieved\<newline>   '' @ bullet @ '' Aggregates logs from all services\<newline>   '' @ bullet @ '' Redis-based persistence\<newline>   '' @ bullet @ '' Search and filtering capabilities\<newline>\<newline>5. Security Implementation: '' @ check_mark @ '' Achieved\<newline>   '' @ bullet @ '' JWT authentication\<newline>   '' @ bullet @ '' Secure configuration\<newline>   '' @ bullet @ '' Input validation\<newline>   '' @ bullet @ '' Password hashing\<newline>\<newline>6. Production Readiness: '' @ check_mark @ '' Achieved\<newline>   '' @ bullet @ '' Comprehensive test coverage\<newline>   '' @ bullet @ '' Docker containerization\<newline>   '' @ bullet @ '' Error handling\<newline>   '' @ bullet @ '' Health checks''"

definition section_8_3 :: "stmt list" where
  "section_8_3 =
     [Add_heading ''8.3 Achievement of Objectives'' 2,
      Add_paragraph None objectives_met None]"

definition limitations :: string where
  "limitations =
     ''Current Limitations:\<newline>\<newline>1. GitHub API Rate Limiting: 5,000 requests/hour per token\<newline>   '' @ arrow @ '' Mitigation: Implement caching and request aggregation\<newline>\<newline>2. Single Database Instance: Becomes bottleneck at very high load\<newline>   '' @ arrow @ '' Future: Read replicas and database sharding\<newline>\<newline>3. Email Queue Persistence: Redis queue not persistent\<newline>   '' @ arrow @ '' Future: Upgrade to RabbitMQ or Kafka\<newline>\<newline>4. Token Revocation: No immediate token blacklist\<newline>   '' @ arrow @ '' Future: Implement Redis-based token blacklist\<newline>\<newline>5. Authorization Granularity: Basic RBAC only\<newline>   '' @ arrow @ '' Future: Implement fine-grained authorization (ABAC)\<newline>\<newline>Future Enhancements:\<newline>\<newline>'' @ bullet @ '' CI/CD pipeline integration\<newline>'' @ bullet @ '' Kubernetes deployment configuration\<newline>'' @ bullet @ '' Prometheus metrics collection\<newline>'' @ bullet @ '' ELK stack for advanced logging\<newline>'' @ bullet @ '' GraphQL API layer\<newline>'' @ bullet @ '' WebSocket support for real-time updates\<newline>'' @ bullet @ '' Multi-tenant support\<newline>'' @ bullet @ '' Advanced caching strategies\<newline>'' @ bullet @ '' Service mesh implementation''"

definition section_8_4 :: "stmt list" where
  "section_8_4 =
     [Add_heading ''8.4 Limitations and Future Work'' 2,
      Add_paragraph None limitations None,
      Add_page_break]"

definition conclusion_text :: string where
  "conclusion_text =
     ''This thesis has presented a comprehensive design and implementation of a microservice-based system for processing GitHub repository data using NestJS and modern backend technologies. The system successfully demonstrates how to build scalable, maintainable distributed systems that integrate with external APIs, manage authentication securely, and provide reliable asynchronous operations.\<newline>\<newline>Key Achievements:\<newline>\<newline>1. Successfully designed and implemented a microservice architecture that separates concerns across independent services\<newline>2. Developed robust GitHub API integration with proper error handling and rate limit management\<newline>3. Implemented secure JWT-based authentication with refresh token mechanisms\<newline>4. Created asynchronous email notification system\<newline>5. Established centralized logging and monitoring infrastructure\<newline>6. Applied industry-standard security practices throughout the system\<newline>7. Demonstrated scalability through Docker containerization and multi-service deployment\<newline>\<newline>Research Questions Answered:\<newline>\<newline>Q1: How can microservice architecture improve scalability and maintainability?\<newline>'' @ arrow @ '' The implementation shows that independent services can be scaled separately, developed in parallel, and deployed without affecting other services, significantly improving both scalability and maintainability compared to monolithic approaches.\<newline>\<newline>Q2: What are effective patterns for integrating external APIs?\<newline>'' @ arrow @ '' The GitHub Stack Service demonstrates effective patterns: proper authentication, caching strategies, rate limit handling, error recovery, and data transformation at service boundaries.\<newline>\<newline>Q3: How can NestJS features enable secure microservices?\<newline>'' @ arrow @ '' NestJS's dependency injection, guard system, pipe validation, and modular architecture provide strong foundation for secure, maintainable microservices.\<newline>\<newline>Q4: What trade-offs exist in distributed systems?\<newline>'' @ arrow @ '' The implementation reveals trade-offs between operational complexity vs. scalability benefits, eventual consistency vs. immediate consistency, and development complexity vs. deployment flexibility.\<newline>\<newline>Q5: How to implement centralized logging effectively?\<newline>'' @ arrow @ '' Redis-based logging provides scalable aggregation with fast retrieval, suitable for debugging and analysis.\<newline>\<newline>Production Readiness:\<newline>\<newline>The system is production-ready with:\<newline>'' @ bullet @ '' Comprehensive test coverage (unit, integration, e2e)\<newline>'' @ bullet @ '' Proper error handling and recovery mechanisms\<newline>'' @ bullet @ '' Health checks and monitoring capabilities\<newline>'' @ bullet @ '' Docker containerization for consistent deployment\<newline>'' @ bullet @ '' Environment-based configuration\<newline>'' @ bullet @ '' Security best practices implemented\<newline>'' @ bullet @ '' Logging and audit trails\<newline>\<newline>This thesis serves as a practical guide for implementing microservice architectures using NestJS and demonstrates that with proper design patterns, architecture, and engineering practices, microservices can be effectively implemented and maintained.''"

definition conclusion :: "stmt list" where
  "conclusion =
     [Add_heading ''9. Conclusion'' 1,
      Add_paragraph None conclusion_text None,
      Add_page_break]"

definition references :: "stmt list" where
  "references =
     [Add_heading ''10. References'' 1]"

definition official_refs :: "string list" where
  "official_refs =
     [''NestJS Documentation: https://docs.nestjs.com/'',
      ''GitHub REST API v3: https://docs.github.com/en/rest'',
      ''Docker Documentation: https://docs.docker.com/'',
      ''PostgreSQL Documentation: https://www.postgresql.org/docs/'',
      ''Redis Documentation: https://redis.io/documentation'',
      ''TypeScript Handbook: https://www.typescriptlang.org/docs/'',
      ''TypeORM Documentation: https://typeorm.io/'']"

definition official_documentation :: "stmt list" where
  "official_documentation =
     [Add_heading ''Official Documentation'' 2]
     @ for_each official_refs (\<lambda>ref.
        [Add_paragraph None ref (Some ''List Bullet'')])"

definition books :: "string list" where
  "books =
     [''Sam Newman (2021): Building Microservices: Designing Fine-Grained Systems'',
      ''Martin Fowler (2015): Microservice Architecture'',
      ''Eric Evans (2003): Domain-Driven Design'',
      ''Robert C. Martin (2008): Clean Code'',
      ''Newman, S. (2019): Monolith to Microservices - Evolving Systems One Service at a Time (O'Reilly Media)'']"

definition books_and_academic_sources :: "stmt list" where
  "books_and_academic_sources =
     [Add_heading ''Books and Academic Sources'' 2]
     @ for_each books (\<lambda>book.
        [Add_paragraph None book (Some ''List Bullet'')])"

definition tools :: "string list" where
  "tools =
     [''Passport.js: http://www.passportjs.org/'',
      ''Nodemailer: https://nodemailer.com/'',
      ''Jest: https://jestjs.io/'',
      ''Docker Hub: https://hub.docker.com/'',
      ''npm Registry: https://www.npmjs.com/'']"

definition tools_and_libraries :: "stmt list" where
  "tools_and_libraries =
     [Add_heading ''Tools and Libraries'' 2]
     @ for_each tools (\<lambda>tool.
        [Add_paragraph None tool (Some ''List Bullet'')])
     @ [Add_page_break]"

definition appendices :: "stmt list" where
  "appendices =
     [Add_heading ''11. Appendices'' 1]"

definition config_example :: string where
  "config_example =
     ''# Environment\<newline>NODE_ENV=development\<newline>\<newline># Server\<newline>PORT=3000\<newline>GATEWAY_PORT=3000\<newline>GITHUB_SERVICE_PORT=3001\<newline>EMAIL_SERVICE_PORT=3002\<newline>LOGGER_SERVICE_PORT=3003\<newline>\<newline># Database\<newline>DB_HOST=postgres\<newline>DB_PORT=5432\<newline>DB_USERNAME=postgres\<newline>DB_PASSWORD=postgres\<newline>DB_NAME=github_stack\<newline>DB_SYNCHRONIZE=true\<newline>\<newline># Redis\<newline>REDIS_HOST=redis\<newline>REDIS_PORT=6379\<newline>\<newline># GitHub\<newline>GITHUB_TOKEN=ghp_xxxxxxxxxxxxxxxxxxxx\<newline>GITHUB_API_BASE=https://api.github.com\<newline>\<newline># Email\<newline>EMAIL_PROVIDER=gmail\<newline>EMAIL_USER=your-email@gmail.com\<newline>EMAIL_PASSWORD=app-password\<newline>EMAIL_FROM=noreply@github-stack.com\<newline>\<newline># JWT\<newline>JWT_SECRET=your-super-secret-key-min-32-chars\<newline>JWT_EXPIRATION=900\<newline>JWT_REFRESH_SECRET=your-refresh-secret\<newline>JWT_REFRESH_EXPIRATION=604800\<newline>\<newline># Logging\<newline>LOG_LEVEL=info''"

definition appendix_A :: "stmt list" where
  "appendix_A =
     [Add_heading ''A. Configuration Example (.env)'' 2,
      Add_paragraph (Some ''config_para'') config_example None,
      Set_style ''config_para'' ''No Spacing'']"

definition endpoints :: "string list" where
  "endpoints =
     [''POST /auth/register - Register new user'',
      ''POST /auth/login - Login and receive tokens'',
      ''POST /auth/refresh - Refresh access token'',
      ''GET /users/profile - Get current user profile'',
      ''GET /github/repositories/:owner/:repo - Get repository details'',
      ''GET /github/repositories/search?q=query - Search repositories'',
      ''GET /github/repositories/:owner/:repo/releases - Get releases'',
      ''POST /email/send - Send email notification'',
      ''GET /logs - Retrieve system logs'',
      ''GET /health - Service health check'']"

definition appendix_B :: "stmt list" where
  "appendix_B =
     [Add_heading ''B. Key API Endpoints'' 2]
     @ for_each endpoints (\<lambda>endpoint.
        [Add_paragraph None endpoint (Some ''List Bullet'')])"

definition docker_commands :: string where
  "docker_commands =
     ''# Build all services\<newline>docker-compose build\<newline>\<newline># Start all services\<newline>docker-compose up -d\<newline>\<newline># View logs\<newline>docker-compose logs -f\<newline>\<newline># Stop services\<newline>docker-compose down\<newline>\<newline># Run migrations\<newline>docker-compose exec github-stack npm run typeorm migration:run\<newline>\<newline># Run tests\<newline>docker-compose exec github-stack npm test''"

definition appendix_C :: "stmt list" where
  "appendix_C =
     [Add_heading ''C. Docker Deployment Commands'' 2,
      Add_paragraph (Some ''docker_para'') docker_commands None,
      Set_style ''docker_para'' ''No Spacing'']"

definition test_commands :: string where
  "test_commands =
     ''# Run all tests\<newline>npm test\<newline>\<newline># Run tests with coverage\<newline>npm run test:cov\<newline>\<newline># Run specific test file\<newline>npm test -- auth.service.spec\<newline>\<newline># Run tests in watch mode\<newline>npm run test:watch\<newline>\<newline># Run E2E tests\<newline>npm run test:e2e''"

definition appendix_D :: "stmt list" where
  "appendix_D =
     [Add_heading ''D. Testing Commands'' 2,
      Add_paragraph (Some ''test_para'') test_commands None,
      Set_style ''test_para'' ''No Spacing'']"

definition output_path :: string where
  "output_path =
     ''c:'' @ [CHR 0x5C] @ ''Users'' @ [CHR 0x5C] @ ''Administrator'' @ [CHR 0x5C] @ ''Desktop'' @ [CHR 0x5C] @ ''Final_Project_2026'' @ [CHR 0x5C] @ ''GitHub_Project'' @ [CHR 0x5C] @ ''GitHub_Stack_Bachelor_Thesis.docx''"

definition save_document :: "stmt list" where
  "save_document =
     [Save output_path,
      Print (check_mark @ '' Document created successfully: '' @ output_path),
      Print (check_mark @ '' Document contains:''),
      Print ''  - Professional title page'',
      Print ''  - Table of contents'',
      Print ''  - 11 main sections with comprehensive content'',
      Print ''  - Multiple subsections with detailed explanations'',
      Print ''  - Tables and structured data'',
      Print ''  - Security and implementation details'',
      Print ''  - References and appendices'',
      Print ''  - Proper formatting and styling'']"

text \<open>The statements from the title page to the last appendix, lines 56 to 1224 of the
  source.\<close>

definition document_body :: "stmt list" where
  "document_body =
     title_page @ table_of_contents @ abstract @ introduction @ section_1_1
     @ section_1_2 @ section_1_3 @ section_1_4 @ section_1_5 @ theoretical_background
     @ section_2_1 @ section_2_1_1 @ section_2_1_2 @ section_2_1_3 @ section_2_1_4
     @ section_2_2 @ section_2_3 @ section_2_3_1 @ technologies_and_tools @ section_3_1
     @ section_3_2 @ section_3_3 @ section_3_4 @ section_3_5 @ section_3_5_1
     @ section_3_5_2 @ system_requirements_and_analysis @ section_4_1 @ section_4_1_1
     @ section_4_1_2 @ section_4_1_3 @ section_4_1_4 @ section_4_2 @ section_4_2_1
     @ section_4_2_2 @ section_4_2_3 @ section_4_3 @ section_4_3_1 @ section_4_4
     @ system_architecture_design @ section_5_1 @ section_5_2 @ section_5_2_1
     @ section_5_2_2 @ section_5_2_3 @ section_5_2_4 @ section_5_3 @ section_5_4
     @ implementation_details @ section_6_1 @ section_6_2 @ section_6_3 @ section_6_4
     @ section_6_5 @ security_considerations @ section_7_1 @ section_7_2 @ section_7_3
     @ section_7_4 @ results_and_evaluation @ section_8_1 @ section_8_2 @ section_8_3
     @ section_8_4 @ conclusion @ references @ official_documentation
     @ books_and_academic_sources @ tools_and_libraries @ appendices @ appendix_A
     @ appendix_B @ appendix_C @ appendix_D"

text \<open>The whole run: the margins, the body, then \<^verbatim>\<open>doc.save(output_path)\<close> and the
  messages.\<close>

definition content :: "stmt list" where
  "content = page_setup @ document_body"

definition script :: "stmt list" where
  "script = content @ save_document"

definition main :: "environment \<Rightarrow> error \<times> py_state + py_state" where
  "main e = exec script (startup e)"

section \<open>Observations on documents and statement lists\<close>

text \<open>\<^verbatim>\<open>paragraph.text\<close>: the texts of the runs, joined.\<close>

definition paragraph_text :: "docx_paragraph \<Rightarrow> string" where
  "paragraph_text p = concat (map run_text (runs p))"

text \<open>The headings among a list of blocks, each with its style and its text: a heading
  is a paragraph whose style is one that \<^verbatim>\<open>add_heading\<close> gives.\<close>

fun heading_entry :: "block \<Rightarrow> (string \<times> string) list" where
  "heading_entry (Paragraph p) =
     (case style p of
        None \<Rightarrow> []
      | Some name \<Rightarrow>
          if name \<in> set (map heading_style [0, 1, 2, 3, 4, 5, 6, 7, 8, 9])
          then [(name, paragraph_text p)] else [])"
| "heading_entry (Table t) = []"

definition outline :: "block list \<Rightarrow> (string \<times> string) list" where
  "outline bs = concat (map heading_entry bs)"

text \<open>The blocks that a run of statements leaves behind the blocks the document had.\<close>

definition appended_by :: "stmt list \<Rightarrow> py_state \<Rightarrow> error + block list" where
  "appended_by stmts s =
     (case exec stmts s of
        Inl (e, s0) \<Rightarrow> Inl e
      | Inr s' \<Rightarrow> Inr (drop (length (blocks (doc s))) (blocks (doc s'))))"

text \<open>An environment for running the script on: no arguments, no variables, every path
  writable.\<close>

definition plain_environment :: environment where
  "plain_environment = \<lparr>argv = [], environ = [], clock = 0, can_write = (\<lambda>path. True)\<rparr>"

text \<open>The block that a statement appends, as it is at the moment of the call: the four
  appending calls of the script are \<^verbatim>\<open>add_paragraph\<close>, \<^verbatim>\<open>add_heading\<close>, \<^verbatim>\<open>add_page_break\<close>
  and \<^verbatim>\<open>add_table\<close>; no other statement appends.\<close>

fun appended :: "stmt \<Rightarrow> block list" where
  "appended (Add_paragraph target text style_name) =
     [Paragraph ((if text \<noteq> [] then add_run new_paragraph text else new_paragraph)
                 \<lparr>style := style_name\<rparr>)]"
| "appended (Add_heading text level) =
     [Paragraph ((if text \<noteq> [] then add_run new_paragraph text else new_paragraph)
                 \<lparr>style := Some (heading_style level)\<rparr>)]"
| "appended Add_page_break =
     [Paragraph (new_paragraph\<lparr>runs := [(new_run [])\<lparr>page_break := True\<rparr>]\<rparr>)]"
| "appended (Add_table target rows cols) =
     [Table \<lparr>table_style = None, table_rows = replicate rows (replicate cols [])\<rparr>]"
| "appended st = []"

text \<open>What a statement that appends nothing can do to one block of the document.\<close>

definition run_changed :: "(docx_run \<Rightarrow> docx_run) \<Rightarrow> docx_paragraph \<Rightarrow> block \<Rightarrow> bool" where
  "run_changed f p b =
     (\<exists>i. i < length (runs p) \<and> b = Paragraph (p\<lparr>runs := (runs p)[i := f (runs p ! i)]\<rparr>))"

fun changed :: "stmt \<Rightarrow> block \<Rightarrow> block \<Rightarrow> bool" where
  "changed (Add_run target v text) (Paragraph p) b = (b = Paragraph (add_run p text))"
| "changed (Set_alignment v a) (Paragraph p) b = (b = Paragraph (p\<lparr>alignment := Some a\<rparr>))"
| "changed (Set_style v name) (Paragraph p) b = (b = Paragraph (p\<lparr>style := Some name\<rparr>))"
| "changed (Set_style v name) (Table t) b = (b = Table (t\<lparr>table_style := Some name\<rparr>))"
| "changed (Set_paragraph_spacing v sb sa) (Paragraph p) b =
     (b = Paragraph (set_paragraph_spacing p sb sa))"
| "changed (Set_cell_text v j text) (Table t) b =
     (\<exists>i. i < length (table_rows t) \<and> j < length (table_rows t ! i) \<and>
          b = Table (t\<lparr>table_rows := (table_rows t)[i := (table_rows t ! i)[j := text]]\<rparr>))"
| "changed (Set_bold v x) (Paragraph p) b = run_changed (\<lambda>r. r\<lparr>bold := Some x\<rparr>) p b"
| "changed (Set_font_size v n) (Paragraph p) b = run_changed (\<lambda>r. r\<lparr>font_size := Some n\<rparr>) p b"
| "changed (Set_font_color v c) (Paragraph p) b = run_changed (\<lambda>r. r\<lparr>font_color := Some c\<rparr>) p b"
| "changed st b0 b = False"

text \<open>A block of the document and the same block later: a paragraph keeps the texts of
  the runs it had, in their order, and may have gained runs behind them; a table keeps
  its grid.  Attributes, styles and the texts of cells may differ.\<close>

fun evolves :: "block \<Rightarrow> block \<Rightarrow> bool" where
  "evolves (Paragraph p) (Paragraph p') =
     (take (length (runs p)) (map run_text (runs p')) = map run_text (runs p))"
| "evolves (Table t) (Table t') = (map length (table_rows t') = map length (table_rows t))"
| "evolves (Paragraph p) (Table t') = False"
| "evolves (Table t) (Paragraph p') = False"

text \<open>A check of a statement list that runs no statement.  It follows the kind of object
  that each variable holds (a paragraph, a run, a table with its numbers of rows and
  columns, the cells of a row with their number) and accepts a statement when the
  variables it uses hold objects of the right kind, the styles it names are styles of
  the right type in the table \<open>S\<close>, heading levels are between 0 and 9 and cell indices
  are inside the grid.  \<^verbatim>\<open>doc.save\<close>, whose outcome rests with the environment, is not
  accepted.\<close>

datatype var_type = Paragraph_var | Run_var | Table_var nat nat | Cells_var nat

definition bind_type :: "string option \<Rightarrow> var_type \<Rightarrow> (string \<times> var_type) list \<Rightarrow> (string \<times> var_type) list" where
  "bind_type target ty vars =
     (case target of None \<Rightarrow> vars | Some v \<Rightarrow> AList.update v ty vars)"

fun check1 ::
  "(string \<times> WD_STYLE_TYPE) list \<Rightarrow> (string \<times> var_type) list \<Rightarrow> stmt \<Rightarrow> (string \<times> var_type) list option" where
  "check1 S vars (Add_paragraph target text style_name) =
     (if (case style_name of None \<Rightarrow> True | Some name \<Rightarrow> map_of S name = Some PARAGRAPH)
      then Some (bind_type target Paragraph_var vars) else None)"
| "check1 S vars (Add_heading text level) =
     (if 0 \<le> level \<and> level \<le> 9 \<and> map_of S (heading_style level) = Some PARAGRAPH
      then Some vars else None)"
| "check1 S vars Add_page_break = Some vars"
| "check1 S vars (Add_table target rows cols) =
     Some (bind_type (Some target) (Table_var rows cols) vars)"
| "check1 S vars (Add_run target v text) =
     (if map_of vars v = Some Paragraph_var then Some (bind_type target Run_var vars) else None)"
| "check1 S vars (Set_alignment v a) =
     (if map_of vars v = Some Paragraph_var then Some vars else None)"
| "check1 S vars (Set_style v name) =
     (case map_of vars v of
        Some Paragraph_var \<Rightarrow> if map_of S name = Some PARAGRAPH then Some vars else None
      | Some (Table_var r c) \<Rightarrow> if map_of S name = Some TABLE then Some vars else None
      | _ \<Rightarrow> None)"
| "check1 S vars (Set_bold v b) = (if map_of vars v = Some Run_var then Some vars else None)"
| "check1 S vars (Set_font_size v n) = (if map_of vars v = Some Run_var then Some vars else None)"
| "check1 S vars (Set_font_color v c) = (if map_of vars v = Some Run_var then Some vars else None)"
| "check1 S vars (Get_row_cells target v i) =
     (case map_of vars v of
        Some (Table_var r c) \<Rightarrow>
          if i < r then Some (bind_type (Some target) (Cells_var c) vars) else None
      | _ \<Rightarrow> None)"
| "check1 S vars (Set_cell_text v j text) =
     (case map_of vars v of
        Some (Cells_var c) \<Rightarrow> if j < c then Some vars else None
      | _ \<Rightarrow> None)"
| "check1 S vars (For_sections assigns) = Some vars"
| "check1 S vars (Set_paragraph_spacing v sb sa) =
     (if map_of vars v = Some Paragraph_var then Some vars else None)"
| "check1 S vars (Save path) = None"
| "check1 S vars (Print line) = Some vars"
| "check1 S vars (Raise e) = None"

fun check :: "(string \<times> WD_STYLE_TYPE) list \<Rightarrow> (string \<times> var_type) list \<Rightarrow> stmt list \<Rightarrow> (string \<times> var_type) list option" where
  "check S vars [] = Some vars"
| "check S vars (st # rest) =
     (case check1 S vars st of None \<Rightarrow> None | Some vars' \<Rightarrow> check S vars' rest)"

text \<open>The meaning of the kinds: what an object must be in a document to be of a kind,
  and a state whose variables hold objects of the kinds listed.\<close>

fun refers :: "document \<Rightarrow> pyobj \<Rightarrow> var_type \<Rightarrow> bool" where
  "refers d (ParagraphObj h) Paragraph_var =
     (case paragraph_at d h of Inr p \<Rightarrow> True | Inl e \<Rightarrow> False)"
| "refers d (RunObj h i) Run_var =
     (case paragraph_at d h of Inr p \<Rightarrow> i < length (runs p) | Inl e \<Rightarrow> False)"
| "refers d (TableObj h) (Table_var r c) =
     (case table_at d h of
        Inr t \<Rightarrow> map length (table_rows t) = replicate r c
      | Inl e \<Rightarrow> False)"
| "refers d (CellsObj h i) (Cells_var c) =
     (case table_at d h of
        Inr t \<Rightarrow> i < length (table_rows t) \<and> length (table_rows t ! i) = c
      | Inl e \<Rightarrow> False)"
| "refers d obj ty = False"

definition conforms :: "(string \<times> var_type) list \<Rightarrow> py_state \<Rightarrow> bool" where
  "conforms vars s =
     (\<forall>v ty. map_of vars v = Some ty \<longrightarrow>
        (\<exists>obj. map_of (globals s) v = Some obj \<and> refers (doc s) obj ty))"

text \<open>Kinds of statements: the loop over the sections, \<^verbatim>\<open>doc.save\<close>, \<^verbatim>\<open>print\<close>.\<close>

fun sets_margins :: "stmt \<Rightarrow> bool" where
  "sets_margins (For_sections assigns) = True"
| "sets_margins st = False"

fun saves :: "stmt \<Rightarrow> bool" where
  "saves (Save path) = True"
| "saves st = False"

fun prints :: "stmt \<Rightarrow> bool" where
  "prints (Print line) = True"
| "prints st = False"

text \<open>A call of \<^verbatim>\<open>add_heading\<close> with a level from 1 to 9, and a statement that gives no
  paragraph the style of the title, which is the heading of level 0.\<close>

fun heading_in_range :: "stmt \<Rightarrow> bool" where
  "heading_in_range (Add_heading text level) = (1 \<le> level \<and> level \<le> 9)"
| "heading_in_range st = True"

fun title_free :: "stmt \<Rightarrow> bool" where
  "title_free (Add_paragraph target text style_name) = (style_name \<noteq> Some ''Title'')"
| "title_free (Set_style v name) = (name \<noteq> ''Title'')"
| "title_free st = True"

text \<open>A statement that leaves no cell of a table empty: it creates no cell and writes
  no empty text.\<close>

fun table_safe :: "stmt \<Rightarrow> bool" where
  "table_safe (Add_table target rows cols) = (rows = 0 \<or> cols = 0)"
| "table_safe (Set_cell_text v j text) = (text \<noteq> [])"
| "table_safe st = True"

text \<open>The statements of the body of the script are of the kind \<open>quiet\<close>; all but the
  statements that build the two tables are of the kind \<open>plain\<close>.\<close>

definition quiet :: "stmt \<Rightarrow> bool" where
  "quiet st =
     (\<not> sets_margins st \<and> \<not> saves st \<and> \<not> prints st \<and> heading_in_range st \<and> title_free st)"

definition plain :: "stmt \<Rightarrow> bool" where
  "plain st = (quiet st \<and> table_safe st)"

text \<open>The check of a statement list against the styles of the default template, with a
  kind that every statement must be of.\<close>

fun vet :: "(stmt \<Rightarrow> bool) \<Rightarrow> (string \<times> var_type) list \<Rightarrow> stmt list \<Rightarrow> bool" where
  "vet p vars [] = True"
| "vet p vars (st # rest) =
     (p st \<and> (case check1 default_styles vars st of
                 None \<Rightarrow> False
               | Some vars' \<Rightarrow> vet p vars' rest))"

text \<open>The level of a heading: the level for which \<^verbatim>\<open>add_heading\<close> gives the style that the
  paragraph has.  A block is in order when it is no heading or a heading of a level from
  1 to 9.\<close>

fun heading_level :: "block \<Rightarrow> int option" where
  "heading_level (Paragraph p) =
     (case style p of
        None \<Rightarrow> None
      | Some name \<Rightarrow> find (\<lambda>level. heading_style level = name) [0, 1, 2, 3, 4, 5, 6, 7, 8, 9])"
| "heading_level (Table t) = None"

definition level_ok :: "block \<Rightarrow> bool" where
  "level_ok b = (case heading_level b of None \<Rightarrow> True | Some level \<Rightarrow> 1 \<le> level \<and> level \<le> 9)"

text \<open>A table without an empty cell; a paragraph counts as such.\<close>

fun populated :: "block \<Rightarrow> bool" where
  "populated (Table t) = list_all (list_all (\<lambda>cell. cell \<noteq> [])) (table_rows t)"
| "populated (Paragraph p) = True"

text \<open>States in which the styles are those of the template and no table has an empty
  cell, and statement lists that run without an exception from every state with a
  property and keep the property.\<close>

definition tidy :: "py_state \<Rightarrow> bool" where
  "tidy s = (styles (doc s) = default_styles \<and> list_all populated (blocks (doc s)))"

definition keeps :: "(py_state \<Rightarrow> bool) \<Rightarrow> stmt list \<Rightarrow> bool" where
  "keeps I stmts = (\<forall>s. I s \<longrightarrow> (\<exists>s'. exec stmts s = Inr s' \<and> I s'))"






section \<open>Evaluating the library calls\<close>

lemma str_nat_digit: "n < 10 \<Longrightarrow> str_nat n = [digit n]"
  by (simp add: str_nat.simps)

lemmas library_defs =
  returning_def assign_def changing_def lookup_def add_paragraph_def add_heading_def
  add_page_break_def add_table_def add_run_def new_run_def new_paragraph_def
  update_paragraph_def update_table_def update_run_def set_paragraph_style_def
  set_table_style_def get_style_id_def row_cells_def set_cell_text_def paragraph_at_def
  table_at_def set_paragraph_spacing_def heading_style_def str_int_def subscript_def
  for_each_def Pt_def Inches_def default_styles_def str_nat_digit digit_def

lemma exec_append:
  "exec (xs @ ys) s = (case exec xs s of Inl failure \<Rightarrow> Inl failure | Inr s' \<Rightarrow> exec ys s')"
  by (induction xs arbitrary: s) (auto split: sum.splits)

section \<open>What one statement does to the blocks\<close>

lemma update_paragraph_Inr:
  assumes "update_paragraph d h f = Inr d'"
  obtains p p' where "h < length (blocks d)" "blocks d ! h = Paragraph p" "f p = Inr p'"
    "d' = d\<lparr>blocks := (blocks d)[h := Paragraph p']\<rparr>"
  using assms
  by (auto simp: update_paragraph_def split: if_splits block.splits sum.splits)

lemma update_table_Inr:
  assumes "update_table d h f = Inr d'"
  obtains t t' where "h < length (blocks d)" "blocks d ! h = Table t" "f t = Inr t'"
    "d' = d\<lparr>blocks := (blocks d)[h := Table t']\<rparr>"
  using assms
  by (auto simp: update_table_def split: if_splits block.splits sum.splits)

lemma changing_Inr:
  assumes "changing s r = Inr s'"
  obtains d where "r = Inr d" "s' = s\<lparr>doc := d\<rparr>"
  using assms by (auto simp: changing_def split: sum.splits)

lemma returning_Inr:
  assumes "returning target obj s r = Inr s'"
  obtains h d where "r = Inr (h, d)" "s' = assign target (obj h) (s\<lparr>doc := d\<rparr>)"
  using assms by (auto simp: returning_def split: sum.splits)

lemma doc_assign [simp]: "doc (assign target obj s) = doc s"
  by (simp add: assign_def split: option.splits)

lemma lookup_Inr: "lookup s v = Inr obj \<longleftrightarrow> map_of (globals s) v = Some obj"
  by (simp add: lookup_def split: option.splits)

lemma update_run_effect:
  assumes "changing s (update_paragraph (doc s) h (\<lambda>p. update_run p i f)) = Inr s'"
  obtains p where "h < length (blocks (doc s))" "blocks (doc s) ! h = Paragraph p"
    "run_changed f p (blocks (doc s') ! h)"
    "blocks (doc s') = (blocks (doc s))[h := blocks (doc s') ! h]"
proof -
  from assms obtain d where d: "update_paragraph (doc s) h (\<lambda>p. update_run p i f) = Inr d"
    "s' = s\<lparr>doc := d\<rparr>"
    by (rule changing_Inr)
  from d(1) obtain p p' where p: "h < length (blocks (doc s))" "blocks (doc s) ! h = Paragraph p"
    "update_run p i f = Inr p'" "d = (doc s)\<lparr>blocks := (blocks (doc s))[h := Paragraph p']\<rparr>"
    by (rule update_paragraph_Inr)
  from p(3) have i: "i < length (runs p)" and p': "p' = p\<lparr>runs := (runs p)[i := f (runs p ! i)]\<rparr>"
    by (auto simp: update_run_def split: if_splits)
  from d(2) p(1,4) have at: "blocks (doc s') ! h = Paragraph p'" by simp
  from i p' have "run_changed f p (Paragraph p')" by (auto simp: run_changed_def)
  with at have 3: "run_changed f p (blocks (doc s') ! h)" by simp
  from d(2) p(4) at have 4: "blocks (doc s') = (blocks (doc s))[h := blocks (doc s') ! h]" by simp
  from p(1,2) 3 4 show thesis by (rule that)
qed

lemma effect_update:
  assumes "h < length (blocks (doc s))" "changed st (blocks (doc s) ! h) b'"
    "blocks (doc s') = (blocks (doc s))[h := b']"
  shows "blocks (doc s') = blocks (doc s) @ appended st
       \<or> (\<exists>h b'. h < length (blocks (doc s)) \<and> changed st (blocks (doc s) ! h) b'
                 \<and> blocks (doc s') = (blocks (doc s))[h := b'])"
  using assms by blast

lemma exec1_effect:
  assumes "exec1 st s = Inr s'"
  shows "blocks (doc s') = blocks (doc s) @ appended st
       \<or> (\<exists>h b'. h < length (blocks (doc s)) \<and> changed st (blocks (doc s) ! h) b'
                 \<and> blocks (doc s') = (blocks (doc s))[h := b'])"
proof (cases st)
  case (Add_paragraph target tx style_name)
  with assms have "blocks (doc s') = blocks (doc s) @ appended st"
    by (auto simp: add_paragraph_def get_style_id_def Let_def new_paragraph_def add_run_def
        elim!: returning_Inr split: sum.splits option.splits if_splits)
  then show ?thesis by simp
next
  case (Add_heading tx level)
  with assms have "blocks (doc s') = blocks (doc s) @ appended st"
    by (auto simp: add_heading_def add_paragraph_def get_style_id_def Let_def
        new_paragraph_def add_run_def
        elim!: returning_Inr split: sum.splits option.splits if_splits)
  then show ?thesis by simp
next
  case Add_page_break
  with assms have "blocks (doc s') = blocks (doc s) @ appended st"
    by (auto simp: add_page_break_def elim!: returning_Inr)
  then show ?thesis by simp
next
  case (Add_table target rows cols)
  with assms have "blocks (doc s') = blocks (doc s) @ appended st"
    by (auto simp: add_table_def elim!: returning_Inr)
  then show ?thesis by simp
next
  case (Add_run target v tx)
  with assms show ?thesis
    by (auto simp: lookup_def paragraph_at_def
        elim!: returning_Inr update_paragraph_Inr
        split: sum.splits option.splits if_splits pyobj.splits block.splits)
next
  case (Set_alignment v a)
  with assms show ?thesis
    by (auto simp: lookup_def elim!: changing_Inr update_paragraph_Inr
        split: sum.splits option.splits pyobj.splits)
next
  case (Set_style v name)
  with assms show ?thesis
    by (auto simp: lookup_def set_paragraph_style_def set_table_style_def get_style_id_def
        elim!: changing_Inr update_paragraph_Inr update_table_Inr
        split: sum.splits option.splits pyobj.splits if_splits)
next
  case (Set_bold v b)
  with assms show ?thesis
    by (auto simp: lookup_def elim!: update_run_effect
        split: sum.splits option.splits pyobj.splits)
next
  case (Set_font_size v n)
  with assms show ?thesis
    by (auto simp: lookup_def elim!: update_run_effect
        split: sum.splits option.splits pyobj.splits)
next
  case (Set_font_color v c)
  with assms show ?thesis
    by (auto simp: lookup_def elim!: update_run_effect
        split: sum.splits option.splits pyobj.splits)
next
  case (Get_row_cells target v i)
  with assms show ?thesis
    by (auto simp: lookup_def split: sum.splits option.splits pyobj.splits)
next
  case (Set_cell_text v j tx)
  with assms obtain h i t where t: "h < length (blocks (doc s))" "blocks (doc s) ! h = Table t"
    "i < length (table_rows t)" "j < length (table_rows t ! i)"
    "blocks (doc s') =
       (blocks (doc s))[h := Table (t\<lparr>table_rows := (table_rows t)[i := (table_rows t ! i)[j := tx]]\<rparr>)]"
    by (auto simp: lookup_def set_cell_text_def row_cells_def
        elim!: changing_Inr update_table_Inr
        split: sum.splits option.splits pyobj.splits if_splits)
  from t(3,4) have "changed st (blocks (doc s) ! h)
      (Table (t\<lparr>table_rows := (table_rows t)[i := (table_rows t ! i)[j := tx]]\<rparr>))"
    unfolding t(2) Set_cell_text by auto
  with t(1) t(5) show ?thesis by blast
next
  case (For_sections assigns)
  with assms show ?thesis by auto
next
  case (Set_paragraph_spacing v sb sa)
  with assms show ?thesis
    by (auto simp: lookup_def elim!: changing_Inr update_paragraph_Inr
        split: sum.splits option.splits pyobj.splits)
next
  case (Save path)
  with assms show ?thesis by (auto simp: save_def split: if_splits)
next
  case (Print line)
  with assms show ?thesis by auto
next
  case (Raise e)
  with assms show ?thesis by auto
qed

section \<open>Blocks keep their places\<close>

lemma evolves_refl: "evolves b b"
  by (cases b) simp_all


lemma all_evolve_refl: "list_all2 evolves bs bs"
  by (simp add: list_all2_refl evolves_refl)

lemma map_update_same: "i < length xs \<Longrightarrow> (map f xs)[i := f (xs ! i)] = map f xs"
  by (simp add: list_update_same_conv)

lemma changed_evolves: "changed st b b' \<Longrightarrow> evolves b b'"
  by (cases "(st, b, b')" rule: changed.cases)
     (auto simp: add_run_def set_paragraph_spacing_def run_changed_def map_update map_update_same)

lemma exec1_evolves:
  assumes "exec1 st s = Inr s'"
  shows "list_all2 evolves (blocks (doc s) @ appended st) (blocks (doc s'))"
  using exec1_effect [OF assms]
proof
  assume "blocks (doc s') = blocks (doc s) @ appended st"
  then show ?thesis by (simp add: all_evolve_refl)
next
  assume "\<exists>h b'. h < length (blocks (doc s)) \<and> changed st (blocks (doc s) ! h) b'
                 \<and> blocks (doc s') = (blocks (doc s))[h := b']"
  then obtain h b' where h: "h < length (blocks (doc s))"
    and c: "changed st (blocks (doc s) ! h) b'"
    and b: "blocks (doc s') = (blocks (doc s))[h := b']"
    by blast
  from c have no: "appended st = []"
    by (cases "(st, blocks (doc s) ! h, b')" rule: changed.cases) auto
  have "list_all2 evolves ((blocks (doc s))[h := blocks (doc s) ! h]) ((blocks (doc s))[h := b'])"
    by (rule list_all2_update_cong [OF all_evolve_refl changed_evolves [OF c]])
  with no b show ?thesis by simp
qed



section \<open>Statement lists that the check accepts run without an exception\<close>

lemma paragraph_at_Inr:
  "paragraph_at d h = Inr p \<longleftrightarrow> h < length (blocks d) \<and> blocks d ! h = Paragraph p"
  by (auto simp: paragraph_at_def split: block.splits)

lemma table_at_Inr:
  "table_at d h = Inr t \<longleftrightarrow> h < length (blocks d) \<and> blocks d ! h = Table t"
  by (auto simp: table_at_def split: block.splits)

lemma refers_Paragraph_var:
  assumes "refers d obj Paragraph_var"
  obtains h p where "obj = ParagraphObj h" "h < length (blocks d)" "blocks d ! h = Paragraph p"
  using assms
  by (cases "(d, obj, Paragraph_var)" rule: refers.cases)
     (auto simp: paragraph_at_Inr split: sum.splits)

lemma refers_Run_var:
  assumes "refers d obj Run_var"
  obtains h i p where "obj = RunObj h i" "h < length (blocks d)" "blocks d ! h = Paragraph p"
    "i < length (runs p)"
  using assms
  by (cases "(d, obj, Run_var)" rule: refers.cases)
     (auto simp: paragraph_at_Inr split: sum.splits)

lemma refers_Table_var:
  assumes "refers d obj (Table_var r c)"
  obtains h t where "obj = TableObj h" "h < length (blocks d)" "blocks d ! h = Table t"
    "map length (table_rows t) = replicate r c"
  using assms
  by (cases "(d, obj, Table_var r c)" rule: refers.cases)
     (auto simp: table_at_Inr split: sum.splits)

lemma refers_Cells_var:
  assumes "refers d obj (Cells_var c)"
  obtains h i t where "obj = CellsObj h i" "h < length (blocks d)" "blocks d ! h = Table t"
    "i < length (table_rows t)" "length (table_rows t ! i) = c"
  using assms
  by (cases "(d, obj, Cells_var c)" rule: refers.cases)
     (auto simp: table_at_Inr split: sum.splits)

lemma evolves_Paragraph:
  assumes "evolves (Paragraph p) b"
  obtains p' where "b = Paragraph p'" "length (runs p) \<le> length (runs p')"
proof (cases b)
  case (Paragraph p')
  with assms have "length (take (length (runs p)) (map run_text (runs p'))) = length (runs p)"
    by simp
  then have "length (runs p) \<le> length (runs p')" by simp
  with Paragraph show ?thesis by (rule that)
next
  case (Table t)
  with assms show ?thesis by simp
qed

lemma evolves_Table:
  assumes "evolves (Table t) b"
  obtains t' where "b = Table t'" "map length (table_rows t') = map length (table_rows t)"
  using assms by (cases b) auto

lemma evolved_block:
  assumes "list_all2 evolves (blocks d @ xs) (blocks d')" "h < length (blocks d)"
  shows "h < length (blocks d') \<and> evolves (blocks d ! h) (blocks d' ! h)"
proof -
  from assms(1) have len: "length (blocks d @ xs) = length (blocks d')"
    by (rule list_all2_lengthD)
  with assms(2) have h: "h < length (blocks d @ xs)" by simp
  from list_all2_nthD [OF assms(1) h] assms(2)
  have "evolves (blocks d ! h) (blocks d' ! h)" by (simp add: nth_append)
  with h len show ?thesis by simp
qed

lemma refers_mono:
  assumes ev: "list_all2 evolves (blocks d @ xs) (blocks d')" and r: "refers d obj ty"
  shows "refers d' obj ty"
proof (cases ty)
  case Paragraph_var
  with r obtain h p where o: "obj = ParagraphObj h" "h < length (blocks d)"
    "blocks d ! h = Paragraph p"
    by (auto elim: refers_Paragraph_var)
  from evolved_block [OF ev o(2)] o(3) obtain p' where "h < length (blocks d')"
    "blocks d' ! h = Paragraph p'"
    by (auto elim: evolves_Paragraph)
  with o(1) Paragraph_var show ?thesis by (simp add: paragraph_at_def)
next
  case Run_var
  with r obtain h i p where o: "obj = RunObj h i" "h < length (blocks d)"
    "blocks d ! h = Paragraph p" "i < length (runs p)"
    by (auto elim: refers_Run_var)
  from evolved_block [OF ev o(2)] o(3) obtain p' where "h < length (blocks d')"
    "blocks d' ! h = Paragraph p'" "length (runs p) \<le> length (runs p')"
    by (auto elim: evolves_Paragraph)
  with o(1,4) Run_var show ?thesis by (simp add: paragraph_at_def)
next
  case (Table_var rows cols)
  with r obtain h t where o: "obj = TableObj h" "h < length (blocks d)"
    "blocks d ! h = Table t" "map length (table_rows t) = replicate rows cols"
    by (auto elim: refers_Table_var)
  from evolved_block [OF ev o(2)] o(3) obtain t' where "h < length (blocks d')"
    "blocks d' ! h = Table t'" "map length (table_rows t') = map length (table_rows t)"
    by (auto elim: evolves_Table)
  with o(1,4) Table_var show ?thesis by (simp add: table_at_def)
next
  case (Cells_var cols)
  with r obtain h i t where o: "obj = CellsObj h i" "h < length (blocks d)"
    "blocks d ! h = Table t" "i < length (table_rows t)" "length (table_rows t ! i) = cols"
    by (auto elim: refers_Cells_var)
  from evolved_block [OF ev o(2)] o(3) obtain t' where t': "h < length (blocks d')"
    "blocks d' ! h = Table t'" "map length (table_rows t') = map length (table_rows t)"
    by (auto elim: evolves_Table)
  from t'(3) have len: "length (table_rows t') = length (table_rows t)"
    by (metis length_map)
  with o(4) have i: "i < length (table_rows t')" by simp
  from t'(3) have "map length (table_rows t') ! i = map length (table_rows t) ! i" by simp
  with i o(4) have "length (table_rows t' ! i) = length (table_rows t ! i)" by simp
  with i t'(1,2) o(1,5) Cells_var show ?thesis by (simp add: table_at_def)
qed

lemma conforms_keep:
  assumes "exec1 st s = Inr s'" "conforms vars s" "globals s' = globals s"
  shows "conforms vars s'"
  using assms refers_mono [OF exec1_evolves [OF assms(1)]]
  by (auto simp: conforms_def) blast

lemma conforms_bind:
  assumes "exec1 st s = Inr s'" "conforms vars s"
    "globals s' = AList.update v obj (globals s)" "refers (doc s') obj ty"
  shows "conforms (AList.update v ty vars) s'"
  using assms refers_mono [OF exec1_evolves [OF assms(1)]]
  by (auto simp: conforms_def update_conv') blast

lemma styles_update_paragraph:
  "update_paragraph d h f = Inr d' \<Longrightarrow> styles d' = styles d"
  by (auto elim!: update_paragraph_Inr)

lemma styles_update_table:
  "update_table d h f = Inr d' \<Longrightarrow> styles d' = styles d"
  by (auto elim!: update_table_Inr)

lemma sections_update_paragraph:
  "update_paragraph d h f = Inr d' \<Longrightarrow> sections d' = sections d"
  by (auto elim!: update_paragraph_Inr)

lemma sections_update_table:
  "update_table d h f = Inr d' \<Longrightarrow> sections d' = sections d"
  by (auto elim!: update_table_Inr)

lemma frame_add_paragraph:
  "add_paragraph d tx style_name = Inr (h, d') \<Longrightarrow>
     styles d' = styles d \<and> sections d' = sections d"
  by (auto simp: add_paragraph_def Let_def split: option.splits sum.splits)

lemma exec1_styles:
  assumes "exec1 st s = Inr s'"
  shows "styles (doc s') = styles (doc s)"
  using assms
  by (cases st)
     (auto simp: lookup_def add_heading_def add_page_break_def add_table_def save_def
        dest: frame_add_paragraph styles_update_paragraph styles_update_table
        elim!: returning_Inr changing_Inr
        split: sum.splits option.splits pyobj.splits if_splits)

lemma sound_returning:
  assumes ex: "exec1 st s = returning target obj s (Inr (h, d))"
    and ref: "refers d (obj h) ty" and c: "conforms vars s"
  shows "\<exists>s'. exec1 st s = Inr s' \<and> conforms (bind_type target ty vars) s'"
proof -
  let ?s' = "assign target (obj h) (s\<lparr>doc := d\<rparr>)"
  from ex have run: "exec1 st s = Inr ?s'" by (simp add: returning_def)
  have "conforms (bind_type target ty vars) ?s'"
  proof (cases target)
    case None
    then have "globals ?s' = globals s" by (simp add: assign_def)
    with run c have "conforms vars ?s'" by (rule conforms_keep)
    with None show ?thesis by (simp add: bind_type_def)
  next
    case (Some v)
    then have g: "globals ?s' = AList.update v (obj h) (globals s)" by (simp add: assign_def)
    from ref have "refers (doc ?s') (obj h) ty" by simp
    with run c g have "conforms (AList.update v ty vars) ?s'" by (rule conforms_bind)
    with Some show ?thesis by (simp add: bind_type_def)
  qed
  with run show ?thesis by blast
qed

lemma sound_changing:
  assumes ex: "exec1 st s = changing s (Inr d)" and c: "conforms vars s"
  shows "\<exists>s'. exec1 st s = Inr s' \<and> conforms vars s'"
proof -
  from ex have run: "exec1 st s = Inr (s\<lparr>doc := d\<rparr>)" by (simp add: changing_def)
  have "globals (s\<lparr>doc := d\<rparr>) = globals s" by simp
  with run c have "conforms vars (s\<lparr>doc := d\<rparr>)" by (rule conforms_keep)
  with run show ?thesis by blast
qed

lemma sound_keeping:
  assumes ex: "exec1 st s = Inr s'" and g: "globals s' = globals s" and c: "conforms vars s"
  shows "\<exists>s'. exec1 st s = Inr s' \<and> conforms vars s'"
  using conforms_keep [OF ex c g] ex by blast

lemma add_paragraph_ok:
  assumes "case style_name of None \<Rightarrow> True | Some name \<Rightarrow> map_of (styles d) name = Some PARAGRAPH"
  shows "\<exists>p. add_paragraph d tx style_name =
           Inr (length (blocks d), d\<lparr>blocks := blocks d @ [Paragraph p]\<rparr>)"
  using assms
  by (auto simp: add_paragraph_def get_style_id_def Let_def split: option.splits)

lemma refers_new_paragraph:
  "refers (d\<lparr>blocks := blocks d @ [Paragraph p]\<rparr>) (ParagraphObj (length (blocks d))) Paragraph_var"
  by (simp add: paragraph_at_def)

lemma conformsD:
  assumes "conforms vars s" "map_of vars v = Some ty"
  obtains obj where "lookup s v = Inr obj" "refers (doc s) obj ty"
proof -
  from assms obtain obj where 1: "map_of (globals s) v = Some obj" and 2: "refers (doc s) obj ty"
    unfolding conforms_def by blast
  from 1 have "lookup s v = Inr obj" by (simp add: lookup_def)
  then show thesis using 2 by (rule that)
qed

lemma check1_conforms:
  assumes c: "conforms vars s" and S: "styles (doc s) = S"
    and k: "check1 S vars st = Some vars'"
  shows "\<exists>s'. exec1 st s = Inr s' \<and> conforms vars' s'"
proof (cases st)
  case (Add_paragraph target tx style_name)
  with k S have ok: "case style_name of None \<Rightarrow> True
      | Some name \<Rightarrow> map_of (styles (doc s)) name = Some PARAGRAPH"
    and v: "vars' = bind_type target Paragraph_var vars"
    by (auto split: if_splits)
  from add_paragraph_ok [OF ok] obtain p where
    "add_paragraph (doc s) tx style_name =
       Inr (length (blocks (doc s)), (doc s)\<lparr>blocks := blocks (doc s) @ [Paragraph p]\<rparr>)"
    by blast
  with Add_paragraph have "exec1 st s = returning target ParagraphObj s
      (Inr (length (blocks (doc s)), (doc s)\<lparr>blocks := blocks (doc s) @ [Paragraph p]\<rparr>))"
    by simp
  from sound_returning [OF this refers_new_paragraph c] v show ?thesis by simp
next
  case (Add_heading tx level)
  with k S have lv: "0 \<le> level" "level \<le> 9"
    and ok: "case Some (heading_style level) of None \<Rightarrow> True
      | Some name \<Rightarrow> map_of (styles (doc s)) name = Some PARAGRAPH"
    and v: "vars' = vars"
    by (auto split: if_splits)
  from add_paragraph_ok [OF ok] obtain p where
    "add_paragraph (doc s) tx (Some (heading_style level)) =
       Inr (length (blocks (doc s)), (doc s)\<lparr>blocks := blocks (doc s) @ [Paragraph p]\<rparr>)"
    by blast
  with Add_heading lv have "exec1 st s = returning None ParagraphObj s
      (Inr (length (blocks (doc s)), (doc s)\<lparr>blocks := blocks (doc s) @ [Paragraph p]\<rparr>))"
    by (simp add: add_heading_def)
  from sound_returning [OF this refers_new_paragraph c] v show ?thesis
    by (simp add: bind_type_def)
next
  case Add_page_break
  with k have v: "vars' = vars" by simp
  from Add_page_break have "exec1 st s = returning None ParagraphObj s
      (Inr (length (blocks (doc s)),
            (doc s)\<lparr>blocks := blocks (doc s) @
               [Paragraph (new_paragraph\<lparr>runs := [(new_run [])\<lparr>page_break := True\<rparr>]\<rparr>)]\<rparr>))"
    by (simp add: add_page_break_def)
  from sound_returning [OF this refers_new_paragraph c] v show ?thesis
    by (simp add: bind_type_def)
next
  case (Add_table target rows cols)
  with k have v: "vars' = bind_type (Some target) (Table_var rows cols) vars" by simp
  let ?d = "(doc s)\<lparr>blocks := blocks (doc s) @
      [Table \<lparr>table_style = None, table_rows = replicate rows (replicate cols [])\<rparr>]\<rparr>"
  from Add_table have ex: "exec1 st s = returning (Some target) TableObj s
      (Inr (length (blocks (doc s)), ?d))"
    by (simp add: add_table_def)
  have "refers ?d (TableObj (length (blocks (doc s)))) (Table_var rows cols)"
    by (simp add: table_at_def)
  from sound_returning [OF ex this c] v show ?thesis by simp
next
  case (Add_run target v tx)
  with k have ty: "map_of vars v = Some Paragraph_var"
    and v: "vars' = bind_type target Run_var vars"
    by (auto split: if_splits)
  from c ty obtain obj where l: "lookup s v = Inr obj" and "refers (doc s) obj Paragraph_var"
    by (rule conformsD)
  then obtain h p where o: "obj = ParagraphObj h" "h < length (blocks (doc s))"
    "blocks (doc s) ! h = Paragraph p"
    by (auto elim: refers_Paragraph_var)
  let ?d = "(doc s)\<lparr>blocks := (blocks (doc s))[h := Paragraph (add_run p tx)]\<rparr>"
  from Add_run l o have ex: "exec1 st s = returning target (RunObj h) s (Inr (length (runs p), ?d))"
    by (simp add: paragraph_at_def update_paragraph_def)
  from o(2) have "refers ?d (RunObj h (length (runs p))) Run_var"
    by (simp add: paragraph_at_def add_run_def)
  from sound_returning [OF ex this c] v show ?thesis by simp
next
  case (Set_alignment v a)
  with k have ty: "map_of vars v = Some Paragraph_var" and v: "vars' = vars"
    by (auto split: if_splits)
  from c ty obtain obj where l: "lookup s v = Inr obj" and "refers (doc s) obj Paragraph_var"
    by (rule conformsD)
  then obtain h p where o: "obj = ParagraphObj h" "h < length (blocks (doc s))"
    "blocks (doc s) ! h = Paragraph p"
    by (auto elim: refers_Paragraph_var)
  from Set_alignment l o have "exec1 st s = changing s
      (Inr ((doc s)\<lparr>blocks := (blocks (doc s))[h := Paragraph (p\<lparr>alignment := Some a\<rparr>)]\<rparr>))"
    by (simp add: update_paragraph_def)
  from sound_changing [OF this c] v show ?thesis by simp
next
  case (Set_style v name)
  from k Set_style S consider
      (par) "map_of vars v = Some Paragraph_var" "map_of (styles (doc s)) name = Some PARAGRAPH"
        "vars' = vars"
    | (tab) r cl where "map_of vars v = Some (Table_var r cl)"
        "map_of (styles (doc s)) name = Some TABLE" "vars' = vars"
    by (auto split: option.splits var_type.splits if_splits)
  then show ?thesis
  proof cases
    case par
    from c par(1) obtain obj where l: "lookup s v = Inr obj"
      and "refers (doc s) obj Paragraph_var"
      by (rule conformsD)
    then obtain h p where o: "obj = ParagraphObj h" "h < length (blocks (doc s))"
      "blocks (doc s) ! h = Paragraph p"
      by (auto elim: refers_Paragraph_var)
    from Set_style l o par(2) have "exec1 st s = changing s
        (Inr ((doc s)\<lparr>blocks := (blocks (doc s))[h := Paragraph (p\<lparr>style := Some name\<rparr>)]\<rparr>))"
      by (simp add: update_paragraph_def set_paragraph_style_def get_style_id_def)
    from sound_changing [OF this c] par(3) show ?thesis by simp
  next
    case tab
    from c tab(1) obtain obj where l: "lookup s v = Inr obj"
      and "refers (doc s) obj (Table_var r cl)"
      by (rule conformsD)
    then obtain h t where o: "obj = TableObj h" "h < length (blocks (doc s))"
      "blocks (doc s) ! h = Table t"
      by (auto elim: refers_Table_var)
    from Set_style l o tab(2) have "exec1 st s = changing s
        (Inr ((doc s)\<lparr>blocks := (blocks (doc s))[h := Table (t\<lparr>table_style := Some name\<rparr>)]\<rparr>))"
      by (simp add: update_table_def set_table_style_def get_style_id_def)
    from sound_changing [OF this c] tab(3) show ?thesis by simp
  qed
next
  case (Set_bold v b)
  with k have ty: "map_of vars v = Some Run_var" and v: "vars' = vars"
    by (auto split: if_splits)
  from c ty obtain obj where l: "lookup s v = Inr obj" and "refers (doc s) obj Run_var"
    by (rule conformsD)
  then obtain h i p where o: "obj = RunObj h i" "h < length (blocks (doc s))"
    "blocks (doc s) ! h = Paragraph p" "i < length (runs p)"
    by (auto elim: refers_Run_var)
  from Set_bold l o have "\<exists>d. exec1 st s = changing s (Inr d)"
    by (auto simp: update_paragraph_def update_run_def)
  then obtain d where "exec1 st s = changing s (Inr d)" by blast
  from sound_changing [OF this c] v show ?thesis by simp
next
  case (Set_font_size v n)
  with k have ty: "map_of vars v = Some Run_var" and v: "vars' = vars"
    by (auto split: if_splits)
  from c ty obtain obj where l: "lookup s v = Inr obj" and "refers (doc s) obj Run_var"
    by (rule conformsD)
  then obtain h i p where o: "obj = RunObj h i" "h < length (blocks (doc s))"
    "blocks (doc s) ! h = Paragraph p" "i < length (runs p)"
    by (auto elim: refers_Run_var)
  from Set_font_size l o have "\<exists>d. exec1 st s = changing s (Inr d)"
    by (auto simp: update_paragraph_def update_run_def)
  then obtain d where "exec1 st s = changing s (Inr d)" by blast
  from sound_changing [OF this c] v show ?thesis by simp
next
  case (Set_font_color v cl)
  with k have ty: "map_of vars v = Some Run_var" and v: "vars' = vars"
    by (auto split: if_splits)
  from c ty obtain obj where l: "lookup s v = Inr obj" and "refers (doc s) obj Run_var"
    by (rule conformsD)
  then obtain h i p where o: "obj = RunObj h i" "h < length (blocks (doc s))"
    "blocks (doc s) ! h = Paragraph p" "i < length (runs p)"
    by (auto elim: refers_Run_var)
  from Set_font_color l o have "\<exists>d. exec1 st s = changing s (Inr d)"
    by (auto simp: update_paragraph_def update_run_def)
  then obtain d where "exec1 st s = changing s (Inr d)" by blast
  from sound_changing [OF this c] v show ?thesis by simp
next
  case (Get_row_cells target v i)
  with k obtain r cl where ty: "map_of vars v = Some (Table_var r cl)" and i: "i < r"
    and v: "vars' = bind_type (Some target) (Cells_var cl) vars"
    by (auto split: option.splits var_type.splits if_splits)
  from c ty obtain obj where l: "lookup s v = Inr obj" and "refers (doc s) obj (Table_var r cl)"
    by (rule conformsD)
  then obtain h t where o: "obj = TableObj h" "h < length (blocks (doc s))"
    "blocks (doc s) ! h = Table t" "map length (table_rows t) = replicate r cl"
    by (auto elim: refers_Table_var)
  from o(4) have len: "length (table_rows t) = r" by (metis length_map length_replicate)
  from o(4) have "map length (table_rows t) ! i = replicate r cl ! i" by simp
  with i len have row: "length (table_rows t ! i) = cl" by simp
  from Get_row_cells l o i len have ex: "exec1 st s = returning (Some target) (CellsObj h) s
      (Inr (i, doc s))"
    by (simp add: table_at_def row_cells_def returning_def)
  from o i len row have "refers (doc s) (CellsObj h i) (Cells_var cl)"
    by (simp add: table_at_def)
  from sound_returning [OF ex this c] v show ?thesis by simp
next
  case (Set_cell_text v j tx)
  with k obtain cl where ty: "map_of vars v = Some (Cells_var cl)" and j: "j < cl"
    and v: "vars' = vars"
    by (auto split: option.splits var_type.splits if_splits)
  from c ty obtain obj where l: "lookup s v = Inr obj" and "refers (doc s) obj (Cells_var cl)"
    by (rule conformsD)
  then obtain h i t where o: "obj = CellsObj h i" "h < length (blocks (doc s))"
    "blocks (doc s) ! h = Table t" "i < length (table_rows t)" "length (table_rows t ! i) = cl"
    by (auto elim: refers_Cells_var)
  from Set_cell_text l o j have "\<exists>d. exec1 st s = changing s (Inr d)"
    by (auto simp: update_table_def set_cell_text_def row_cells_def)
  then obtain d where "exec1 st s = changing s (Inr d)" by blast
  from sound_changing [OF this c] v show ?thesis by simp
next
  case (For_sections assigns)
  with k have v: "vars' = vars" by simp
  from For_sections have "exec1 st s = Inr (s\<lparr>doc := (doc s)\<lparr>sections :=
            map (\<lambda>sec. fold section_assignment assigns sec) (sections (doc s))\<rparr>\<rparr>)"
    by simp
  from sound_keeping [OF this _ c] v show ?thesis by simp
next
  case (Set_paragraph_spacing v sb sa)
  with k have ty: "map_of vars v = Some Paragraph_var" and v: "vars' = vars"
    by (auto split: if_splits)
  from c ty obtain obj where l: "lookup s v = Inr obj" and "refers (doc s) obj Paragraph_var"
    by (rule conformsD)
  then obtain h p where o: "obj = ParagraphObj h" "h < length (blocks (doc s))"
    "blocks (doc s) ! h = Paragraph p"
    by (auto elim: refers_Paragraph_var)
  from Set_paragraph_spacing l o have "\<exists>d. exec1 st s = changing s (Inr d)"
    by (auto simp: update_paragraph_def)
  then obtain d where "exec1 st s = changing s (Inr d)" by blast
  from sound_changing [OF this c] v show ?thesis by simp
next
  case (Save path)
  with k show ?thesis by simp
next
  case (Print line)
  with k have v: "vars' = vars" by simp
  from Print have "exec1 st s = Inr (s\<lparr>stdout := stdout s @ [line]\<rparr>)" by simp
  from sound_keeping [OF this _ c] v show ?thesis by simp
next
  case (Raise e)
  with k show ?thesis by simp
qed

lemma check_sound:
  assumes "conforms vars s" "styles (doc s) = S" "check S vars stmts = Some vars'"
  shows "\<exists>s'. exec stmts s = Inr s' \<and> conforms vars' s'"
  using assms
proof (induction stmts arbitrary: vars s)
  case Nil
  then show ?case by simp
next
  case (Cons st rest)
  from Cons.prems(3) obtain vars1 where 1: "check1 S vars st = Some vars1"
    and 2: "check S vars1 rest = Some vars'"
    by (auto split: option.splits)
  from check1_conforms [OF Cons.prems(1,2) 1] obtain s1 where
    s1: "exec1 st s = Inr s1" "conforms vars1 s1"
    by blast
  from exec1_styles [OF s1(1)] Cons.prems(2) have "styles (doc s1) = S" by simp
  from Cons.IH [OF s1(2) this 2] s1(1) show ?case by simp
qed

lemma exec_styles:
  assumes "exec stmts s = Inr s'"
  shows "styles (doc s') = styles (doc s)"
  using assms
proof (induction stmts arbitrary: s)
  case Nil
  then show ?case by simp
next
  case (Cons st rest)
  from Cons.prems obtain s1 where 1: "exec1 st s = Inr s1" and 2: "exec rest s1 = Inr s'"
    by (auto split: sum.splits)
  from Cons.IH [OF 2] exec1_styles [OF 1] show ?case by simp
qed

lemma conforms_nothing: "conforms [] s"
  by (simp add: conforms_def)

lemma accepted_runs:
  assumes "check (styles (doc s)) [] stmts = Some vars"
  shows "\<exists>s'. exec stmts s = Inr s'"
  using check_sound [OF conforms_nothing refl assms] by blast

lemma style_lookups:
  "map_of default_styles ''List Bullet'' = Some PARAGRAPH"
  "map_of default_styles ''List Number'' = Some PARAGRAPH"
  "map_of default_styles ''No Spacing'' = Some PARAGRAPH"
  "map_of default_styles ''Light Grid Accent 1'' = Some TABLE"
  "map_of default_styles (heading_style 1) = Some PARAGRAPH"
  "map_of default_styles (heading_style 2) = Some PARAGRAPH"
  "map_of default_styles (heading_style 3) = Some PARAGRAPH"
  "map_of default_styles (heading_style 4) = Some PARAGRAPH"
  by (simp_all add: default_styles_def heading_style_def str_int_def str_nat_digit digit_def)

lemma heading_styles:
  "heading_style 1 = ''Heading 1''" "heading_style 2 = ''Heading 2''"
  "heading_style 3 = ''Heading 3''" "heading_style 4 = ''Heading 4''"
  by (simp_all add: heading_style_def str_int_def str_nat_digit digit_def)

lemma heading_lookups:
  "map_of default_styles ''Heading 1'' = Some PARAGRAPH"
  "map_of default_styles ''Heading 2'' = Some PARAGRAPH"
  "map_of default_styles ''Heading 3'' = Some PARAGRAPH"
  "map_of default_styles ''Heading 4'' = Some PARAGRAPH"
  by (simp_all add: default_styles_def)

lemmas vet_defs = plain_def quiet_def bind_type_def for_each_def subscript_def style_lookups

lemmas step_defs =
  returning_def assign_def changing_def lookup_def add_paragraph_def add_heading_def
  add_page_break_def add_table_def add_run_def new_run_def new_paragraph_def
  update_paragraph_def update_table_def update_run_def set_paragraph_style_def
  set_table_style_def get_style_id_def row_cells_def set_cell_text_def paragraph_at_def
  table_at_def set_paragraph_spacing_def subscript_def for_each_def Pt_def Inches_def
  style_lookups heading_styles heading_lookups update_conv' nth_append list_update_append

section \<open>Properties that statements of a kind keep\<close>

lemma vet_sound:
  "vet p vars stmts \<Longrightarrow> list_all p stmts \<and> (\<exists>vars'. check default_styles vars stmts = Some vars')"
  by (induction stmts arbitrary: vars) (auto split: option.splits)

lemma vetted_runs:
  assumes "vet p [] stmts" "styles (doc s) = default_styles"
  shows "\<exists>s'. exec stmts s = Inr s'"
proof -
  from vet_sound [OF assms(1)] obtain vars' where "check default_styles [] stmts = Some vars'"
    by blast
  with assms(2) have "check (styles (doc s)) [] stmts = Some vars'" by simp
  then show ?thesis by (rule accepted_runs)
qed

lemma list_all_update: "list_all Q xs \<Longrightarrow> Q x \<Longrightarrow> list_all Q (xs[i := x])"
  by (induction xs arbitrary: i) (auto split: nat.splits)

lemma block_invariant:
  assumes run: "exec1 st s = Inr s'"
    and new: "list_all Q (appended st)"
    and upd: "\<And>b b'. changed st b b' \<Longrightarrow> Q b \<Longrightarrow> Q b'"
    and old: "list_all Q (blocks (doc s))"
  shows "list_all Q (blocks (doc s'))"
  using exec1_effect [OF run]
proof
  assume "blocks (doc s') = blocks (doc s) @ appended st"
  with new old show ?thesis by simp
next
  assume "\<exists>h b'. h < length (blocks (doc s)) \<and> changed st (blocks (doc s) ! h) b'
                 \<and> blocks (doc s') = (blocks (doc s))[h := b']"
  then obtain h b' where h: "h < length (blocks (doc s))"
    and c: "changed st (blocks (doc s) ! h) b'"
    and b: "blocks (doc s') = (blocks (doc s))[h := b']"
    by blast
  from old h have "Q (blocks (doc s) ! h)" by (simp add: list_all_length)
  with c have "Q b'" by (rule upd)
  with old b show ?thesis by (simp add: list_all_update)
qed

lemma level_ok_Paragraph: "level_ok (Paragraph p) \<longleftrightarrow> style p \<noteq> Some ''Title''"
  by (auto simp: level_ok_def heading_style_def split: option.splits)

lemma level_ok_Table: "level_ok (Table t)"
  by (simp add: level_ok_def)

lemma heading_style_not_Title: "1 \<le> level \<Longrightarrow> heading_style level \<noteq> ''Title''"
  by (simp add: heading_style_def)

lemma quiet_levels1:
  assumes "exec1 st s = Inr s'" "quiet st" "list_all level_ok (blocks (doc s))"
  shows "list_all level_ok (blocks (doc s'))"
proof (rule block_invariant [OF assms(1) _ _ assms(3)])
  from assms(2) show "list_all level_ok (appended st)"
    by (cases st)
       (auto simp: quiet_def level_ok_Paragraph level_ok_Table new_paragraph_def add_run_def
          heading_style_not_Title)
next
  fix b b' assume "changed st b b'" "level_ok b"
  with assms(2) show "level_ok b'"
    by (cases "(st, b, b')" rule: changed.cases)
       (auto simp: quiet_def level_ok_Paragraph level_ok_Table add_run_def
          set_paragraph_spacing_def run_changed_def)
qed

lemma safe_tables1:
  assumes "exec1 st s = Inr s'" "table_safe st" "list_all populated (blocks (doc s))"
  shows "list_all populated (blocks (doc s'))"
proof (rule block_invariant [OF assms(1) _ _ assms(3)])
  from assms(2) show "list_all populated (appended st)"
    by (cases st) (auto simp: list_all_length)
next
  fix b b' assume "changed st b b'" "populated b"
  with assms(2) show "populated b'"
    by (cases "(st, b, b')" rule: changed.cases)
       (auto simp: run_changed_def list_all_update list_all_length nth_list_update)
qed

lemma quiet_frame1:
  assumes "exec1 st s = Inr s'" "quiet st"
  shows "sections (doc s') = sections (doc s) \<and> files s' = files s \<and> stdout s' = stdout s"
  using assms
  by (cases st)
     (auto simp: quiet_def lookup_def add_heading_def add_page_break_def add_table_def
        assign_def
        dest: frame_add_paragraph sections_update_paragraph sections_update_table
        elim!: returning_Inr changing_Inr
        split: sum.splits option.splits pyobj.splits if_splits)

lemma exec1_env:
  assumes "exec1 st s = Inr s'"
  shows "env s' = env s"
  using assms
  by (cases st)
     (auto simp: lookup_def assign_def save_def
        elim!: returning_Inr changing_Inr
        split: sum.splits option.splits pyobj.splits if_splits)

lemma exec_Cons_Inr:
  assumes "exec (st # rest) s = Inr s'"
  obtains s1 where "exec1 st s = Inr s1" "exec rest s1 = Inr s'"
  using assms by (auto split: sum.splits)

lemma quiet_levels:
  assumes "exec stmts s = Inr s'" "list_all quiet stmts" "list_all level_ok (blocks (doc s))"
  shows "list_all level_ok (blocks (doc s'))"
  using assms
proof (induction stmts arbitrary: s)
  case Nil
  then show ?case by simp
next
  case (Cons st rest)
  from Cons.prems(1) obtain s1 where 1: "exec1 st s = Inr s1" and 2: "exec rest s1 = Inr s'"
    by (rule exec_Cons_Inr)
  from Cons.prems(2) have q: "quiet st" "list_all quiet rest" by simp_all
  from quiet_levels1 [OF 1 q(1) Cons.prems(3)] have "list_all level_ok (blocks (doc s1))" .
  from Cons.IH [OF 2 q(2) this] show ?case .
qed

lemma safe_tables:
  assumes "exec stmts s = Inr s'" "list_all table_safe stmts"
    "list_all populated (blocks (doc s))"
  shows "list_all populated (blocks (doc s'))"
  using assms
proof (induction stmts arbitrary: s)
  case Nil
  then show ?case by simp
next
  case (Cons st rest)
  from Cons.prems(1) obtain s1 where 1: "exec1 st s = Inr s1" and 2: "exec rest s1 = Inr s'"
    by (rule exec_Cons_Inr)
  from Cons.prems(2) have q: "table_safe st" "list_all table_safe rest" by simp_all
  from safe_tables1 [OF 1 q(1) Cons.prems(3)] have "list_all populated (blocks (doc s1))" .
  from Cons.IH [OF 2 q(2) this] show ?case .
qed

lemma quiet_frame:
  assumes "exec stmts s = Inr s'" "list_all quiet stmts"
  shows "sections (doc s') = sections (doc s) \<and> files s' = files s \<and> stdout s' = stdout s"
  using assms
proof (induction stmts arbitrary: s)
  case Nil
  then show ?case by simp
next
  case (Cons st rest)
  from Cons.prems(1) obtain s1 where 1: "exec1 st s = Inr s1" and 2: "exec rest s1 = Inr s'"
    by (rule exec_Cons_Inr)
  from Cons.prems(2) have q: "quiet st" "list_all quiet rest" by simp_all
  from quiet_frame1 [OF 1 q(1)] Cons.IH [OF 2 q(2)] show ?case by simp
qed

lemma exec_env:
  assumes "exec stmts s = Inr s'"
  shows "env s' = env s"
  using assms
proof (induction stmts arbitrary: s)
  case Nil
  then show ?case by simp
next
  case (Cons st rest)
  from Cons.prems(1) obtain s1 where 1: "exec1 st s = Inr s1" and 2: "exec rest s1 = Inr s'"
    by (rule exec_Cons_Inr)
  from exec1_env [OF 1] Cons.IH [OF 2] show ?case by simp
qed

lemma keeps_append:
  assumes "keeps I xs" "keeps I ys"
  shows "keeps I (xs @ ys)"
  unfolding keeps_def
proof (intro allI impI)
  fix s assume "I s"
  with assms(1) obtain s1 where 1: "exec xs s = Inr s1" "I s1" unfolding keeps_def by blast
  with assms(2) obtain s' where 2: "exec ys s1 = Inr s'" "I s'" unfolding keeps_def by blast
  from 1 2 show "\<exists>s'. exec (xs @ ys) s = Inr s' \<and> I s'" by (simp add: exec_append)
qed

lemma plain_keeps_tidy:
  assumes "vet plain [] stmts"
  shows "keeps tidy stmts"
  unfolding keeps_def
proof (intro allI impI)
  fix s assume t: "tidy s"
  then have st: "styles (doc s) = default_styles" and pop: "list_all populated (blocks (doc s))"
    by (simp_all add: tidy_def)
  from vetted_runs [OF assms st] obtain s' where run: "exec stmts s = Inr s'" by blast
  from vet_sound [OF assms] have "list_all plain stmts" by simp
  then have safe: "list_all table_safe stmts" by (simp add: list_all_iff plain_def)
  from safe_tables [OF run safe pop] exec_styles [OF run] st have "tidy s'"
    by (simp add: tidy_def)
  with run show "\<exists>s'. exec stmts s = Inr s' \<and> tidy s'" by blast
qed

lemma plain_quiet: "vet plain [] stmts \<Longrightarrow> list_all quiet stmts"
  by (drule vet_sound) (simp add: list_all_iff plain_def)

lemma quiet_quiet: "vet quiet [] stmts \<Longrightarrow> list_all quiet stmts"
  by (drule vet_sound) simp


section \<open>The environment is consulted by \<^verbatim>\<open>doc.save\<close> alone\<close>



section \<open>The pieces of the script\<close>

text \<open>Every piece of the body passes the check, as plain statements but for the two
  pieces that build the tables, which are evaluated on any document with the styles of
  the template.\<close>

lemma title_page_vetted: "vet plain [] title_page"
  by (simp add: title_page_def info_text_def vet_defs)

lemma table_of_contents_vetted: "vet plain [] table_of_contents"
  by (simp add: table_of_contents_def toc_items_def vet_defs)

lemma abstract_vetted: "vet plain [] abstract"
  by (simp add: abstract_def abstract_text_def vet_defs)

lemma introduction_vetted: "vet plain [] introduction"
  by (simp add: introduction_def vet_defs)

lemma section_1_1_vetted: "vet plain [] section_1_1"
  by (simp add: section_1_1_def motivation_items_def vet_defs)

lemma section_1_2_vetted: "vet plain [] section_1_2"
  by (simp add: section_1_2_def problems_def vet_defs)

lemma section_1_3_vetted: "vet plain [] section_1_3"
  by (simp add: section_1_3_def objectives_def vet_defs)

lemma section_1_4_vetted: "vet plain [] section_1_4"
  by (simp add: section_1_4_def questions_def vet_defs)

lemma section_1_5_vetted: "vet plain [] section_1_5"
  by (simp add: section_1_5_def structure_text_def vet_defs)

lemma theoretical_background_vetted: "vet plain [] theoretical_background"
  by (simp add: theoretical_background_def vet_defs)

lemma section_2_1_vetted: "vet plain [] section_2_1"
  by (simp add: section_2_1_def vet_defs)

lemma section_2_1_1_vetted: "vet plain [] section_2_1_1"
  by (simp add: section_2_1_1_def char_mono_def adv_mono_def dis_mono_def vet_defs)

lemma section_2_1_2_vetted: "vet plain [] section_2_1_2"
  by (simp add: section_2_1_2_def soa_intro_def char_soa_def vet_defs)

lemma section_2_1_3_vetted: "vet plain [] section_2_1_3"
  by (simp add: section_2_1_3_def microservices_intro_def char_ms_def adv_ms_def vet_defs)

lemma section_2_1_4_vetted: "vet quiet [] section_2_1_4"
  by (simp add: section_2_1_4_def data_def vet_defs)

lemma section_2_2_vetted: "vet plain [] section_2_2"
  by (simp add: section_2_2_def principles_def vet_defs)

lemma section_2_3_vetted: "vet plain [] section_2_3"
  by (simp add: section_2_3_def vet_defs)

lemma section_2_3_1_vetted: "vet plain [] section_2_3_1"
  by (simp add: section_2_3_1_def nestjs_info_def vet_defs)

lemma technologies_and_tools_vetted: "vet plain [] technologies_and_tools"
  by (simp add: technologies_and_tools_def vet_defs)

lemma section_3_1_vetted: "vet plain [] section_3_1"
  by (simp add: section_3_1_def typescript_intro_def ts_benefits_def vet_defs)

lemma section_3_2_vetted: "vet plain [] section_3_2"
  by (simp add: section_3_2_def db_intro_def typeorm_features_def vet_defs)

lemma section_3_3_vetted: "vet plain [] section_3_3"
  by (simp add: section_3_3_def redis_intro_def redis_uses_def vet_defs)

lemma section_3_4_vetted: "vet plain [] section_3_4"
  by (simp add: section_3_4_def docker_intro_def docker_benefits_def vet_defs)

lemma section_3_5_vetted: "vet plain [] section_3_5"
  by (simp add: section_3_5_def vet_defs)

lemma section_3_5_1_vetted: "vet plain [] section_3_5_1"
  by (simp add: section_3_5_1_def github_info_def vet_defs)

lemma section_3_5_2_vetted: "vet plain [] section_3_5_2"
  by (simp add: section_3_5_2_def email_info_def vet_defs)

lemma system_requirements_and_analysis_vetted: "vet plain [] system_requirements_and_analysis"
  by (simp add: system_requirements_and_analysis_def vet_defs)

lemma section_4_1_vetted: "vet plain [] section_4_1"
  by (simp add: section_4_1_def vet_defs)

lemma section_4_1_1_vetted: "vet plain [] section_4_1_1"
  by (simp add: section_4_1_1_def user_reqs_def vet_defs)

lemma section_4_1_2_vetted: "vet plain [] section_4_1_2"
  by (simp add: section_4_1_2_def github_reqs_def vet_defs)

lemma section_4_1_3_vetted: "vet plain [] section_4_1_3"
  by (simp add: section_4_1_3_def email_reqs_def vet_defs)

lemma section_4_1_4_vetted: "vet plain [] section_4_1_4"
  by (simp add: section_4_1_4_def log_reqs_def vet_defs)

lemma section_4_2_vetted: "vet plain [] section_4_2"
  by (simp add: section_4_2_def vet_defs)

lemma section_4_2_1_vetted: "vet plain [] section_4_2_1"
  by (simp add: section_4_2_1_def perf_reqs_def vet_defs)

lemma section_4_2_2_vetted: "vet plain [] section_4_2_2"
  by (simp add: section_4_2_2_def scalability_reqs_def vet_defs)

lemma section_4_2_3_vetted: "vet plain [] section_4_2_3"
  by (simp add: section_4_2_3_def sec_reqs_def vet_defs)

lemma section_4_3_vetted: "vet plain [] section_4_3"
  by (simp add: section_4_3_def vet_defs)

lemma section_4_3_1_vetted: "vet plain [] section_4_3_1"
  by (simp add: section_4_3_1_def roles_def vet_defs)

lemma section_4_4_vetted: "vet plain [] section_4_4"
  by (simp add: section_4_4_def constraints_def vet_defs)

lemma system_architecture_design_vetted: "vet plain [] system_architecture_design"
  by (simp add: system_architecture_design_def vet_defs)

lemma section_5_1_vetted: "vet plain [] section_5_1"
  by (simp add: section_5_1_def arch_intro_def vet_defs)

lemma section_5_2_vetted: "vet plain [] section_5_2"
  by (simp add: section_5_2_def vet_defs)

lemma section_5_2_1_vetted: "vet plain [] section_5_2_1"
  by (simp add: section_5_2_1_def gateway_resp_def vet_defs)

lemma section_5_2_2_vetted: "vet plain [] section_5_2_2"
  by (simp add: section_5_2_2_def github_stack_resp_def vet_defs)

lemma section_5_2_3_vetted: "vet plain [] section_5_2_3"
  by (simp add: section_5_2_3_def email_resp_def vet_defs)

lemma section_5_2_4_vetted: "vet plain [] section_5_2_4"
  by (simp add: section_5_2_4_def logger_resp_def vet_defs)

lemma section_5_3_vetted: "vet plain [] section_5_3"
  by (simp add: section_5_3_def db_design_def vet_defs)

lemma section_5_4_vetted: "vet plain [] section_5_4"
  by (simp add: section_5_4_def comm_intro_def vet_defs)

lemma implementation_details_vetted: "vet plain [] implementation_details"
  by (simp add: implementation_details_def vet_defs)

lemma section_6_1_vetted: "vet plain [] section_6_1"
  by (simp add: section_6_1_def structure_intro_def vet_defs)

lemma section_6_2_vetted: "vet quiet [] section_6_2"
  by (simp add: section_6_2_def tech_data_def vet_defs)

lemma section_6_3_vetted: "vet plain [] section_6_3"
  by (simp add: section_6_3_def deps_intro_def vet_defs)

lemma section_6_4_vetted: "vet plain [] section_6_4"
  by (simp add: section_6_4_def security_impl_def vet_defs)

lemma section_6_5_vetted: "vet plain [] section_6_5"
  by (simp add: section_6_5_def testing_info_def vet_defs)

lemma security_considerations_vetted: "vet plain [] security_considerations"
  by (simp add: security_considerations_def vet_defs)

lemma section_7_1_vetted: "vet plain [] section_7_1"
  by (simp add: section_7_1_def config_intro_def vet_defs)

lemma section_7_2_vetted: "vet plain [] section_7_2"
  by (simp add: section_7_2_def auth_info_def vet_defs)

lemma section_7_3_vetted: "vet plain [] section_7_3"
  by (simp add: section_7_3_def data_protect_def vet_defs)

lemma section_7_4_vetted: "vet plain [] section_7_4"
  by (simp add: section_7_4_def external_api_def vet_defs)

lemma results_and_evaluation_vetted: "vet plain [] results_and_evaluation"
  by (simp add: results_and_evaluation_def vet_defs)

lemma section_8_1_vetted: "vet plain [] section_8_1"
  by (simp add: section_8_1_def performance_intro_def vet_defs)

lemma section_8_2_vetted: "vet plain [] section_8_2"
  by (simp add: section_8_2_def scalability_def vet_defs)

lemma section_8_3_vetted: "vet plain [] section_8_3"
  by (simp add: section_8_3_def objectives_met_def vet_defs)

lemma section_8_4_vetted: "vet plain [] section_8_4"
  by (simp add: section_8_4_def limitations_def vet_defs)

lemma conclusion_vetted: "vet plain [] conclusion"
  by (simp add: conclusion_def conclusion_text_def vet_defs)

lemma references_vetted: "vet plain [] references"
  by (simp add: references_def vet_defs)

lemma official_documentation_vetted: "vet plain [] official_documentation"
  by (simp add: official_documentation_def official_refs_def vet_defs)

lemma books_and_academic_sources_vetted: "vet plain [] books_and_academic_sources"
  by (simp add: books_and_academic_sources_def books_def vet_defs)

lemma tools_and_libraries_vetted: "vet plain [] tools_and_libraries"
  by (simp add: tools_and_libraries_def tools_def vet_defs)

lemma appendices_vetted: "vet plain [] appendices"
  by (simp add: appendices_def vet_defs)

lemma appendix_A_vetted: "vet plain [] appendix_A"
  by (simp add: appendix_A_def config_example_def vet_defs)

lemma appendix_B_vetted: "vet plain [] appendix_B"
  by (simp add: appendix_B_def endpoints_def vet_defs)

lemma appendix_C_vetted: "vet plain [] appendix_C"
  by (simp add: appendix_C_def docker_commands_def vet_defs)

lemma appendix_D_vetted: "vet plain [] appendix_D"
  by (simp add: appendix_D_def test_commands_def vet_defs)

lemmas plain_pieces =
  title_page_vetted table_of_contents_vetted abstract_vetted
  introduction_vetted section_1_1_vetted section_1_2_vetted
  section_1_3_vetted section_1_4_vetted section_1_5_vetted
  theoretical_background_vetted section_2_1_vetted section_2_1_1_vetted
  section_2_1_2_vetted section_2_1_3_vetted section_2_2_vetted
  section_2_3_vetted section_2_3_1_vetted technologies_and_tools_vetted
  section_3_1_vetted section_3_2_vetted section_3_3_vetted
  section_3_4_vetted section_3_5_vetted section_3_5_1_vetted
  section_3_5_2_vetted system_requirements_and_analysis_vetted section_4_1_vetted
  section_4_1_1_vetted section_4_1_2_vetted section_4_1_3_vetted
  section_4_1_4_vetted section_4_2_vetted section_4_2_1_vetted
  section_4_2_2_vetted section_4_2_3_vetted section_4_3_vetted
  section_4_3_1_vetted section_4_4_vetted system_architecture_design_vetted
  section_5_1_vetted section_5_2_vetted section_5_2_1_vetted
  section_5_2_2_vetted section_5_2_3_vetted section_5_2_4_vetted
  section_5_3_vetted section_5_4_vetted implementation_details_vetted
  section_6_1_vetted section_6_3_vetted section_6_4_vetted
  section_6_5_vetted security_considerations_vetted section_7_1_vetted
  section_7_2_vetted section_7_3_vetted section_7_4_vetted
  results_and_evaluation_vetted section_8_1_vetted section_8_2_vetted
  section_8_3_vetted section_8_4_vetted conclusion_vetted
  references_vetted official_documentation_vetted books_and_academic_sources_vetted
  tools_and_libraries_vetted appendices_vetted appendix_A_vetted
  appendix_B_vetted appendix_C_vetted appendix_D_vetted

lemmas table_pieces = section_2_1_4_vetted section_6_2_vetted

lemma body_quiet: "list_all quiet document_body"
  unfolding document_body_def list_all_append
  by (intro conjI plain_pieces [THEN plain_quiet] table_pieces [THEN quiet_quiet])

lemma comparison_table:
  assumes "styles (doc s) = default_styles"
  shows "\<exists>s'. exec section_2_1_4 s = Inr s' \<and> blocks (doc s') = blocks (doc s) @
     [Paragraph
       \<lparr>style = Some ''Heading 3'', alignment = None,
          runs = [new_run ''2.1.4 Comparison and Trade-offs''],
          space_before = None, space_after = None, line_spacing = None\<rparr>,
      Table
       \<lparr>table_style = Some ''Light Grid Accent 1'',
          table_rows =
            [[''Aspect'', ''Monolithic'', ''SOA'', ''Microservices''],
             [''Deployment'', ''Single unit'', ''Multiple services'', ''Independent services''],
             [''Scalability'', ''Component level'', ''Service level'', ''Fine-grained''],
             [''Technology'', ''Unified'', ''Mixed'', ''Flexible per service''],
             [''Data Management'', ''Shared DB'', ''Often shared'',
              ''Independent per service'']]\<rparr>]"
  using assms
  by (simp add: section_2_1_4_def data_def step_defs eval_nat_numeral)


lemma stack_table:
  assumes "styles (doc s) = default_styles"
  shows "\<exists>s'. exec section_6_2 s = Inr s' \<and> blocks (doc s') = blocks (doc s) @
     [Paragraph
       \<lparr>style = Some ''Heading 2'', alignment = None,
          runs = [new_run ''6.2 Technology Stack Summary''],
          space_before = None, space_after = None, line_spacing = None\<rparr>,
      Table
       \<lparr>table_style = Some ''Light Grid Accent 1'',
          table_rows =
            [[''Component'', ''Technology''],
             [''Framework'', ''NestJS 10+''],
             [''Language'', ''TypeScript 5+''],
             [''Database'', ''PostgreSQL 15''],
             [''Cache/Queue'', ''Redis 7''],
             [''Runtime'', ''Node.js 18+''],
             [''Containerization'', ''Docker & Docker Compose'']]\<rparr>]"
  using assms
  by (simp add: section_6_2_def tech_data_def step_defs eval_nat_numeral)

lemma comparison_table_tidy: "keeps tidy section_2_1_4"
  unfolding keeps_def
proof (intro allI impI)
  fix s assume t: "tidy s"
  then have st: "styles (doc s) = default_styles" by (simp add: tidy_def)
  from comparison_table [OF st] obtain s' where run: "exec section_2_1_4 s = Inr s'"
    and b: "list_all populated (drop (length (blocks (doc s))) (blocks (doc s')))"
      "take (length (blocks (doc s))) (blocks (doc s')) = blocks (doc s)"
    by auto
  from b t have "list_all populated (take (length (blocks (doc s))) (blocks (doc s'))
      @ drop (length (blocks (doc s))) (blocks (doc s')))"
    unfolding list_all_append by (simp add: tidy_def)
  with exec_styles [OF run] st have "tidy s'" by (simp add: tidy_def)
  with run show "\<exists>s'. exec section_2_1_4 s = Inr s' \<and> tidy s'" by blast
qed

lemma stack_table_tidy: "keeps tidy section_6_2"
  unfolding keeps_def
proof (intro allI impI)
  fix s assume t: "tidy s"
  then have st: "styles (doc s) = default_styles" by (simp add: tidy_def)
  from stack_table [OF st] obtain s' where run: "exec section_6_2 s = Inr s'"
    and b: "list_all populated (drop (length (blocks (doc s))) (blocks (doc s')))"
      "take (length (blocks (doc s))) (blocks (doc s')) = blocks (doc s)"
    by auto
  from b t have "list_all populated (take (length (blocks (doc s))) (blocks (doc s'))
      @ drop (length (blocks (doc s))) (blocks (doc s')))"
    unfolding list_all_append by (simp add: tidy_def)
  with exec_styles [OF run] st have "tidy s'" by (simp add: tidy_def)
  with run show "\<exists>s'. exec section_6_2 s = Inr s' \<and> tidy s'" by blast
qed

lemma body_tidy: "keeps tidy document_body"
  unfolding document_body_def
  by (intro keeps_append plain_pieces [THEN plain_keeps_tidy]
      comparison_table_tidy stack_table_tidy)

lemma margins_set:
  "exec page_setup s =
     Inr (s\<lparr>doc := (doc s)\<lparr>sections :=
        map (\<lambda>sec. \<lparr>top_margin = 914400, bottom_margin = 914400,
                    left_margin = 1143000, right_margin = 1143000\<rparr>) (sections (doc s))\<rparr>\<rparr>)"
  by (simp add: page_setup_def Inches_def)

lemma body_runs:
  assumes "styles (doc s) = default_styles" "list_all level_ok (blocks (doc s))"
    "list_all populated (blocks (doc s))"
  shows "\<exists>s'. exec document_body s = Inr s'
      \<and> sections (doc s') = sections (doc s) \<and> files s' = files s \<and> stdout s' = stdout s
      \<and> env s' = env s \<and> styles (doc s') = default_styles
      \<and> list_all level_ok (blocks (doc s')) \<and> list_all populated (blocks (doc s'))"
proof -
  from assms have "tidy s" by (simp add: tidy_def)
  with body_tidy obtain s' where run: "exec document_body s = Inr s'" and t: "tidy s'"
    unfolding keeps_def by blast
  from quiet_frame [OF run body_quiet] quiet_levels [OF run body_quiet assms(2)]
    exec_env [OF run] t run
  show ?thesis by (simp add: tidy_def)
qed

lemma content_runs:
  "\<exists>s'. exec content (startup e) = Inr s'
      \<and> sections (doc s') = [\<lparr>top_margin = 914400, bottom_margin = 914400,
                                left_margin = 1143000, right_margin = 1143000\<rparr>]
      \<and> files s' = [] \<and> stdout s' = [] \<and> env s' = e
      \<and> list_all level_ok (blocks (doc s')) \<and> list_all populated (blocks (doc s'))"
proof -
  let ?s1 = "(startup e)\<lparr>doc := (doc (startup e))\<lparr>sections :=
        map (\<lambda>sec. \<lparr>top_margin = 914400, bottom_margin = 914400,
                    left_margin = 1143000, right_margin = 1143000\<rparr>)
          (sections (doc (startup e)))\<rparr>\<rparr>"
  have "styles (doc ?s1) = default_styles" "list_all level_ok (blocks (doc ?s1))"
    "list_all populated (blocks (doc ?s1))"
    by (simp_all add: startup_def Document_def)
  from body_runs [OF this] obtain s' where "exec document_body ?s1 = Inr s'"
    "sections (doc s') = sections (doc ?s1)" "files s' = files ?s1" "stdout s' = stdout ?s1"
    "env s' = env ?s1" "list_all level_ok (blocks (doc s'))"
    "list_all populated (blocks (doc s'))"
    by blast
  then show ?thesis
    by (simp add: content_def exec_append margins_set startup_def Document_def)
qed

section \<open>The outcome of the run\<close>

lemma save_document_outcome:
  assumes "files s = []" "stdout s = []"
  shows "exec save_document s =
     (if can_write (env s) output_path
      then Inr (s\<lparr>files := [(output_path, doc s)],
                 stdout := [check_mark @ '' Document created successfully: '' @ output_path,
                            check_mark @ '' Document contains:'',
                            ''  - Professional title page'',
                            ''  - Table of contents'',
                            ''  - 11 main sections with comprehensive content'',
                            ''  - Multiple subsections with detailed explanations'',
                            ''  - Tables and structured data'',
                            ''  - Security and implementation details'',
                            ''  - References and appendices'',
                            ''  - Proper formatting and styling'']\<rparr>)
      else Inl (IOError, s))"
  using assms by (simp add: save_document_def save_def)

lemma main_outcome:
  "\<exists>s'. exec content (startup e) = Inr s'
      \<and> files s' = [] \<and> stdout s' = [] \<and> env s' = e
      \<and> sections (doc s') = [\<lparr>top_margin = 914400, bottom_margin = 914400,
                                left_margin = 1143000, right_margin = 1143000\<rparr>]
      \<and> list_all level_ok (blocks (doc s')) \<and> list_all populated (blocks (doc s'))
      \<and> main e =
         (if can_write e output_path
          then Inr (s'\<lparr>files := [(output_path, doc s')],
                 stdout := [check_mark @ '' Document created successfully: '' @ output_path,
                            check_mark @ '' Document contains:'',
                            ''  - Professional title page'',
                            ''  - Table of contents'',
                            ''  - 11 main sections with comprehensive content'',
                            ''  - Multiple subsections with detailed explanations'',
                            ''  - Tables and structured data'',
                            ''  - Security and implementation details'',
                            ''  - References and appendices'',
                            ''  - Proper formatting and styling'']\<rparr>)
          else Inl (IOError, s'))"
proof -
  from content_runs [of e] obtain s' where run: "exec content (startup e) = Inr s'"
    and p: "files s' = []" "stdout s' = []" "env s' = e"
      "sections (doc s') = [\<lparr>top_margin = 914400, bottom_margin = 914400,
                                left_margin = 1143000, right_margin = 1143000\<rparr>]"
      "list_all level_ok (blocks (doc s'))" "list_all populated (blocks (doc s'))"
    by blast
  from run have "main e = exec save_document s'"
    by (simp add: main_def script_def exec_append)
  with save_document_outcome [OF p(1,2)] p(3) run p show ?thesis by simp
qed

lemma quiet_parts:
  "quiet st \<Longrightarrow> heading_in_range st"
  "quiet st \<Longrightarrow> \<not> sets_margins st"
  "quiet st \<Longrightarrow> \<not> saves st"
  by (simp_all add: quiet_def)

lemma body_headings: "list_all heading_in_range document_body"
  using body_quiet by (simp add: list_all_iff quiet_parts)

lemma body_no_margins: "list_all (\<lambda>st. \<not> sets_margins st) document_body"
  using body_quiet by (simp add: list_all_iff quiet_parts)






section \<open>Writing the cells of a table\<close>












section \<open>The numbering of the principles\<close>

text \<open>
  Claim C10.  The headings under section 2.2 take their number from
  \<^verbatim>\<open>len([p for p in principles if p[0] <= title])\<close>, the count of the titles that are
  not greater than the title at hand.  For the four titles in the order of the list
  these counts are 4, 1, 2, 3, so that the loop appends, in this order, the headings
  2.2.4 Service Independence, 2.2.1 Decentralized Data Management, 2.2.2 Fault Isolation
  and 2.2.3 Scalability and Resilience: the numbers are a permutation of 1 to 4 and do
  not ascend in the document.
\<close>

theorem principles_numbering:
  assumes "styles (doc s) = default_styles"
  shows "map (\<lambda>(title, description).
              length (filter (\<lambda>p. str_le (fst p) title) principles)) principles
           = [4, 1, 2, 3]
       \<and> map_sum id outline (appended_by section_2_2 s) =
           Inr [(''Heading 2'', ''2.2 Microservices Principles''),
                (''Heading 3'', ''2.2.4 Service Independence''),
                (''Heading 3'', ''2.2.1 Decentralized Data Management''),
                (''Heading 3'', ''2.2.2 Fault Isolation''),
                (''Heading 3'', ''2.2.3 Scalability and Resilience'')]"
proof -
  have numbers: "map (\<lambda>(title, description).
              length (filter (\<lambda>p. str_le (fst p) title) principles)) principles
           = [4, 1, 2, 3]"
    by (simp add: principles_def)
  have headings: "map_sum id outline (appended_by section_2_2 s) =
           Inr [(''Heading 2'', ''2.2 Microservices Principles''),
                (''Heading 3'', ''2.2.4 Service Independence''),
                (''Heading 3'', ''2.2.1 Decentralized Data Management''),
                (''Heading 3'', ''2.2.2 Fault Isolation''),
                (''Heading 3'', ''2.2.3 Scalability and Resilience'')]"
    using assms
    by (simp add: appended_by_def outline_def paragraph_text_def section_2_2_def
        principles_def library_defs)
  from numbers headings show ?thesis by simp
qed

theorem principles_numbering_witness:
  "styles (doc (startup plain_environment)) = default_styles
   \<and> map_sum id outline (appended_by section_2_2 (startup plain_environment)) =
           Inr [(''Heading 2'', ''2.2 Microservices Principles''),
                (''Heading 3'', ''2.2.4 Service Independence''),
                (''Heading 3'', ''2.2.1 Decentralized Data Management''),
                (''Heading 3'', ''2.2.2 Fault Isolation''),
                (''Heading 3'', ''2.2.3 Scalability and Resilience'')]"
proof -
  have h: "styles (doc (startup plain_environment)) = default_styles"
    by (simp add: startup_def Document_def)
  from h principles_numbering [OF h] show ?thesis by simp
qed

section \<open>The order of the blocks\<close>



section \<open>Saving the document\<close>

text \<open>
  Claim C2.  \<^verbatim>\<open>doc.save(path)\<close> fails exactly when the path cannot be written, and then
  with \<^verbatim>\<open>IOError\<close>; when it succeeds the document is the file at the path.  For the run
  of the whole script this is the only failure there is: the run ends with an exception
  exactly when the output path cannot be written, the exception is \<^verbatim>\<open>IOError\<close> as \<^verbatim>\<open>save\<close>
  raised it, nothing catches it, none of the messages that follow \<^verbatim>\<open>save\<close> is printed and
  no file is left behind; otherwise the run ends normally with the document saved under
  the output path and the ten messages printed.
\<close>

theorem save_is_the_only_failure:
  "(case save s path of
      Inl err \<Rightarrow> err = IOError \<and> \<not> can_write (env s) path
    | Inr s' \<Rightarrow> can_write (env s) path \<and> map_of (files s') path = Some (doc s))
   \<and> (case main e of
      Inl (err, s) \<Rightarrow>
        err = IOError \<and> \<not> can_write e output_path \<and> files s = [] \<and> stdout s = []
    | Inr s \<Rightarrow>
        can_write e output_path \<and> files s = [(output_path, doc s)] \<and> length (stdout s) = 10)"
proof -
  have 1: "(case save s path of
      Inl err \<Rightarrow> err = IOError \<and> \<not> can_write (env s) path
    | Inr s' \<Rightarrow> can_write (env s) path \<and> map_of (files s') path = Some (doc s))"
    by (simp add: save_def update_conv')
  from main_outcome [of e] obtain s' where
    "main e = (if can_write e output_path
          then Inr (s'\<lparr>files := [(output_path, doc s')],
                 stdout := [check_mark @ '' Document created successfully: '' @ output_path,
                            check_mark @ '' Document contains:'',
                            ''  - Professional title page'',
                            ''  - Table of contents'',
                            ''  - 11 main sections with comprehensive content'',
                            ''  - Multiple subsections with detailed explanations'',
                            ''  - Tables and structured data'',
                            ''  - Security and implementation details'',
                            ''  - References and appendices'',
                            ''  - Proper formatting and styling'']\<rparr>)
          else Inl (IOError, s'))"
    and "files s' = []" "stdout s' = []"
    by blast
  then have 2: "(case main e of
      Inl (err, s) \<Rightarrow>
        err = IOError \<and> \<not> can_write e output_path \<and> files s = [] \<and> stdout s = []
    | Inr s \<Rightarrow>
        can_write e output_path \<and> files s = [(output_path, doc s)] \<and> length (stdout s) = 10)"
    by simp
  from 1 2 show ?thesis by (intro conjI)
qed

section \<open>Appending after saving\<close>



section \<open>The cells of a table\<close>


section \<open>The styling functions\<close>




section \<open>The levels of the headings\<close>

text \<open>
  Claim C7.  Every call of \<^verbatim>\<open>add_heading\<close> in the script passes a level from 1 to 9,
  and in the document that the run builds every heading is of a level from 1 to 9.
\<close>

theorem heading_levels_in_range:
  "list_all heading_in_range script
   \<and> (\<exists>s'. exec content (startup e) = Inr s' \<and> list_all level_ok (blocks (doc s')))"
proof -
  have "list_all heading_in_range script"
    using body_headings
    by (simp add: script_def content_def page_setup_def save_document_def)
  moreover from content_runs [of e]
  have "\<exists>s'. exec content (startup e) = Inr s' \<and> list_all level_ok (blocks (doc s'))"
    by blast
  ultimately show ?thesis by simp
qed

section \<open>The margins\<close>

text \<open>
  Claim C8.  The first statement of the script after \<^verbatim>\<open>Document()\<close> is the loop over the
  sections, which gives every section a top and a bottom margin of 1 inch (914400 EMU)
  and a left and a right margin of 1.25 inches (1143000 EMU) and appends nothing; it
  runs while the document has no block yet.  No statement after it sets a margin, and
  at the end of the run the one section of the document has these margins.
\<close>

theorem margins_set_once:
  "script = For_sections [Top_margin 914400, Bottom_margin 914400,
                          Left_margin 1143000, Right_margin 1143000]
              # document_body @ save_document
   \<and> list_all (\<lambda>st. \<not> sets_margins st) (document_body @ save_document)
   \<and> blocks (doc (startup e)) = []
   \<and> (\<exists>s1. exec page_setup s = Inr s1
          \<and> blocks (doc s1) = blocks (doc s)
          \<and> sections (doc s1) =
              map (\<lambda>sec. \<lparr>top_margin = 914400, bottom_margin = 914400,
                          left_margin = 1143000, right_margin = 1143000\<rparr>) (sections (doc s)))
   \<and> (\<exists>s'. exec content (startup e) = Inr s'
          \<and> sections (doc s') = [\<lparr>top_margin = 914400, bottom_margin = 914400,
                                    left_margin = 1143000, right_margin = 1143000\<rparr>])"
proof -
  have 1: "script = For_sections [Top_margin 914400, Bottom_margin 914400,
                          Left_margin 1143000, Right_margin 1143000]
              # document_body @ save_document"
    by (simp add: script_def content_def page_setup_def Inches_def)
  have 2: "list_all (\<lambda>st. \<not> sets_margins st) (document_body @ save_document)"
    using body_no_margins by (simp add: save_document_def)
  have 3: "blocks (doc (startup e)) = []"
    by (simp add: startup_def Document_def)
  have 4: "\<exists>s1. exec page_setup s = Inr s1
          \<and> blocks (doc s1) = blocks (doc s)
          \<and> sections (doc s1) =
              map (\<lambda>sec. \<lparr>top_margin = 914400, bottom_margin = 914400,
                          left_margin = 1143000, right_margin = 1143000\<rparr>) (sections (doc s))"
    by (simp add: margins_set)
  from content_runs [of e]
  have 5: "\<exists>s'. exec content (startup e) = Inr s'
          \<and> sections (doc s') = [\<lparr>top_margin = 914400, bottom_margin = 914400,
                                    left_margin = 1143000, right_margin = 1143000\<rparr>]"
    by blast
  from 1 2 3 4 5 show ?thesis by simp
qed

section \<open>Determinism\<close>


end
